theory Spec2Isabelle
  imports Complex_Main "HOL-Library.Word"
begin

section \<open>Values of the linear-algebra and host libraries\<close>

text \<open>
  The program is \<^verbatim>\<open>src/src/optimize.cpp\<close>. Its numbers are C++ doubles; they are
  modelled by the reals, so rounding and overflow of \<^verbatim>\<open>exp\<close> are not part of the model.
  An \<^verbatim>\<open>arma::vec\<close> is a column of numbers, an \<^verbatim>\<open>arma::mat\<close> has its
  dimensions and its elements in column-major order, as the library stores them and
  as \<^verbatim>\<open>vectorise\<close> and \<^verbatim>\<open>reshape\<close> read and write them.
\<close>

type_synonym vec = "real list"

record mat =
  n_rows :: nat
  n_cols :: nat
  mem :: "real list"

text \<open>The invariant of a constructed matrix: it owns \<open>n_rows * n_cols\<close> elements.\<close>

definition mat_ok :: "mat \<Rightarrow> bool" where
  "mat_ok m = (length (mem m) = n_rows m * n_cols m)"

datatype arma = Vec vec | Mat mat

text \<open>
  Every way a call can leave its normal path: the exceptions of the host binding
  (\<open>Rcpp_exception\<close> carries its message), the library's dimension and bounds checks
  (\<open>Arma_logic_error\<close>), a failed decomposition (\<open>Arma_runtime_error\<close>), and
  \<open>Non_finite\<close> for a logarithm or a quotient that has no finite value.
\<close>

datatype failure =
    Rcpp_exception string
  | Rcpp_index_out_of_bounds
  | Rcpp_not_compatible
  | Rcpp_not_a_matrix
  | Arma_logic_error
  | Arma_runtime_error
  | Non_finite

definition bind :: "failure + 'a \<Rightarrow> ('a \<Rightarrow> failure + 'b) \<Rightarrow> failure + 'b" where
  "bind m f = (case m of Inl e \<Rightarrow> Inl e | Inr x \<Rightarrow> f x)"

section \<open>Packing and unpacking\<close>

text \<open>
  \<^verbatim>\<open>packed.subvec(offset, arma::size(n, 1))\<close>: the slice of \<open>n\<close> elements from
  \<open>offset\<close>. The library, which is not part of the program, checks the range. The
  program's comment above the two specialisations chooses this form as the one that is
  correct for a slice of size 0, so the check is modelled as
  \<open>offset + n \<le> length packed\<close>: an assumption about the library, which admits the
  empty slice at any offset up to the end. It matters only for an empty group that
  starts at the very end of the packed vector; every other slice is inside the vector
  under any reading of the check.
  Reading, assigning (the right-hand side must have the slice's size) and filling.
\<close>

definition subvec :: "vec \<Rightarrow> nat \<Rightarrow> nat \<Rightarrow> failure + vec" where
  "subvec packed off n =
     (if off + n \<le> length packed then Inr (take n (drop off packed))
      else Inl Arma_logic_error)"

definition subvec_assign :: "vec \<Rightarrow> nat \<Rightarrow> nat \<Rightarrow> vec \<Rightarrow> failure + vec" where
  "subvec_assign packed off n x =
     (if off + n \<le> length packed
      then (if length x = n then Inr (take off packed @ x @ drop (off + n) packed)
            else Inl Arma_logic_error)
      else Inl Arma_logic_error)"

definition subvec_fill :: "vec \<Rightarrow> nat \<Rightarrow> nat \<Rightarrow> real \<Rightarrow> failure + vec" where
  "subvec_fill packed off n c =
     (if off + n \<le> length packed
      then Inr (take off packed @ replicate n c @ drop (off + n) packed)
      else Inl Arma_logic_error)"

text \<open>
  \<^verbatim>\<open>arma::reshape(x, arma::size(r, c))\<close> refills column by column, padding with zeros
  or dropping the tail when the element counts differ; \<^verbatim>\<open>arma::vectorise\<close> is the
  column-major element sequence.
\<close>

definition reshape :: "vec \<Rightarrow> nat \<Rightarrow> nat \<Rightarrow> mat" where
  "reshape x r c =
     \<lparr>n_rows = r, n_cols = c, mem = take (r * c) (x @ replicate (r * c - length x) 0)\<rparr>"

definition vectorise :: "arma \<Rightarrow> vec" where
  "vectorise a = (case a of Vec v \<Rightarrow> v | Mat m \<Rightarrow> mem m)"

definition n_elem :: "arma \<Rightarrow> nat" where
  "n_elem a = (case a of Vec v \<Rightarrow> length v | Mat m \<Rightarrow> n_rows m * n_cols m)"

text \<open>
  \<^verbatim>\<open>PackedInfo<arma::vec>\<close> and \<^verbatim>\<open>PackedInfo<arma::mat>\<close>, the two specialisations.
  The constructor takes the reference object and the running offset and returns the
  advanced offset (the C++ passes it by reference). \<^verbatim>\<open>arma::uword\<close> sizes are
  natural numbers here: the groups are objects that exist in memory, so their sizes
  add up without wrapping.
\<close>

datatype PackedInfo =
    PackedInfo_vec (offset: nat) (size_v: nat)
  | PackedInfo_mat (offset: nat) (rows: nat) (cols: nat)

fun PackedInfo_new :: "arma \<Rightarrow> nat \<Rightarrow> PackedInfo \<times> nat" where
  "PackedInfo_new (Vec v) current_offset =
     (PackedInfo_vec current_offset (length v), current_offset + length v)"
| "PackedInfo_new (Mat m) current_offset =
     (PackedInfo_mat current_offset (n_rows m) (n_cols m),
      current_offset + n_rows m * n_cols m)"

fun PackedInfo_unpack :: "PackedInfo \<Rightarrow> vec \<Rightarrow> failure + arma" where
  "PackedInfo_unpack (PackedInfo_vec off sz) packed =
     bind (subvec packed off sz) (\<lambda>v. Inr (Vec v))"
| "PackedInfo_unpack (PackedInfo_mat off r c) packed =
     bind (subvec packed off (r * c)) (\<lambda>v. Inr (Mat (reshape v r c)))"

text \<open>
  \<open>pack\<close> assigns an expression to the slice. For a vector group the expression is
  assigned as it is, so it must be a column of the slice's size; for a matrix group it
  is vectorised first, so any value with the group's element count is accepted.
\<close>

fun PackedInfo_pack :: "PackedInfo \<Rightarrow> vec \<Rightarrow> arma \<Rightarrow> failure + vec" where
  "PackedInfo_pack (PackedInfo_vec off sz) packed (Vec v) = subvec_assign packed off sz v"
| "PackedInfo_pack (PackedInfo_vec off sz) packed (Mat m) =
     (if n_cols m = 1 then subvec_assign packed off sz (mem m) else Inl Arma_logic_error)"
| "PackedInfo_pack (PackedInfo_mat off r c) packed expr =
     subvec_assign packed off (r * c) (vectorise expr)"

text \<open>The footprint of a group in the packed vector, and the shape it demands.\<close>

fun info_size :: "PackedInfo \<Rightarrow> nat" where
  "info_size (PackedInfo_vec off sz) = sz"
| "info_size (PackedInfo_mat off r c) = r * c"

fun fits :: "PackedInfo \<Rightarrow> arma \<Rightarrow> bool" where
  "fits (PackedInfo_vec off sz) (Vec v) = (length v = sz)"
| "fits (PackedInfo_mat off r c) (Mat m) = (n_rows m = r \<and> n_cols m = c \<and> mat_ok m)"
| "fits (PackedInfo_vec off sz) (Mat m) = False"
| "fits (PackedInfo_mat off r c) (Vec v) = False"

text \<open>
  \<^verbatim>\<open>Packer<Types...>\<close>: the infos in declaration order and the total size.
  \<^verbatim>\<open>make_packer\<close> runs the constructors left to right on one running offset and
  stores its final value. The index of \<open>unpack\<close>, \<open>pack\<close> and
  \<open>pack_double_or_arma\<close> is a template argument of \<^verbatim>\<open>std::get\<close>: an index past the
  last group does not compile, so the theorems take \<open>i < length (elements p)\<close>.
\<close>

record Packer =
  elements :: "PackedInfo list"
  size_p :: nat

fun make_elements :: "arma list \<Rightarrow> nat \<Rightarrow> PackedInfo list \<times> nat" where
  "make_elements [] current_offset = ([], current_offset)"
| "make_elements (v # vs) current_offset =
     (case PackedInfo_new v current_offset of
        (info, next_offset) \<Rightarrow>
          (case make_elements vs next_offset of
             (infos, final_offset) \<Rightarrow> (info # infos, final_offset)))"

definition make_packer :: "arma list \<Rightarrow> Packer" where
  "make_packer vs =
     (case make_elements vs 0 of
        (infos, final_offset) \<Rightarrow> \<lparr>elements = infos, size_p = final_offset\<rparr>)"

definition unpack :: "Packer \<Rightarrow> nat \<Rightarrow> vec \<Rightarrow> failure + arma" where
  "unpack p i packed = PackedInfo_unpack (elements p ! i) packed"

definition pack :: "Packer \<Rightarrow> nat \<Rightarrow> vec \<Rightarrow> arma \<Rightarrow> failure + vec" where
  "pack p i packed expr = PackedInfo_pack (elements p ! i) packed expr"

section \<open>Values handed over by the host\<close>

text \<open>
  An R value as the binding sees it: a numeric vector with its optional \<open>dim\<close>
  attribute, an integer vector, a character vector, a list with named elements, or
  NULL. The conversions are the binding's: \<^verbatim>\<open>Rcpp::is<double>\<close> holds of a numeric
  vector of length one, \<^verbatim>\<open>Rcpp::as\<close> raises when the value cannot be converted, the
  matrix conversion demands the \<open>dim\<close> attribute, and looking a missing name up in a
  list raises.
\<close>

datatype SEXP =
    REALSXP "real list" "(nat \<times> nat) option"
  | INTSXP "int list"
  | STRSXP "string list"
  | VECSXP "(string \<times> SEXP) list"
  | NILSXP

type_synonym Rcpp_List = "(string \<times> SEXP) list"

fun Rcpp_is_double :: "SEXP \<Rightarrow> bool" where
  "Rcpp_is_double (REALSXP xs d) = (length xs = 1)"
| "Rcpp_is_double _ = False"

fun Rcpp_is_List :: "SEXP \<Rightarrow> bool" where
  "Rcpp_is_List (VECSXP l) = True"
| "Rcpp_is_List _ = False"

fun Rcpp_as_double :: "SEXP \<Rightarrow> failure + real" where
  "Rcpp_as_double (REALSXP [x] d) = Inr x"
| "Rcpp_as_double (INTSXP [i]) = Inr (of_int i)"
| "Rcpp_as_double _ = Inl Rcpp_not_compatible"

fun Rcpp_as_int :: "SEXP \<Rightarrow> failure + int" where
  "Rcpp_as_int (INTSXP [i]) = Inr i"
| "Rcpp_as_int (REALSXP [x] d) = Inr (if 0 \<le> x then \<lfloor>x\<rfloor> else \<lceil>x\<rceil>)"
| "Rcpp_as_int _ = Inl Rcpp_not_compatible"

fun Rcpp_as_string :: "SEXP \<Rightarrow> failure + string" where
  "Rcpp_as_string (STRSXP [s]) = Inr s"
| "Rcpp_as_string _ = Inl Rcpp_not_compatible"

fun Rcpp_as_List :: "SEXP \<Rightarrow> failure + Rcpp_List" where
  "Rcpp_as_List (VECSXP l) = Inr l"
| "Rcpp_as_List _ = Inl Rcpp_not_compatible"

fun Rcpp_as_vec :: "SEXP \<Rightarrow> failure + vec" where
  "Rcpp_as_vec (REALSXP xs d) = Inr xs"
| "Rcpp_as_vec (INTSXP is) = Inr (map of_int is)"
| "Rcpp_as_vec _ = Inl Rcpp_not_compatible"

fun Rcpp_as_mat :: "SEXP \<Rightarrow> failure + mat" where
  "Rcpp_as_mat (REALSXP xs (Some (r, c))) = Inr \<lparr>n_rows = r, n_cols = c, mem = xs\<rparr>"
| "Rcpp_as_mat _ = Inl Rcpp_not_a_matrix"

definition Rcpp_list_get :: "Rcpp_List \<Rightarrow> string \<Rightarrow> failure + SEXP" where
  "Rcpp_list_get l name =
     (case map_of l name of None \<Rightarrow> Inl Rcpp_index_out_of_bounds | Some s \<Rightarrow> Inr s)"

text \<open>
  \<open>pack_double_or_arma\<close>: a single double fills the slice, anything else is converted
  to the group's type and packed.
\<close>

fun PackedInfo_pack_double_or_arma :: "PackedInfo \<Rightarrow> vec \<Rightarrow> SEXP \<Rightarrow> failure + vec" where
  "PackedInfo_pack_double_or_arma (PackedInfo_vec off sz) packed r_value =
     (if Rcpp_is_double r_value
      then bind (Rcpp_as_double r_value) (\<lambda>x. subvec_fill packed off sz x)
      else bind (Rcpp_as_vec r_value)
             (\<lambda>v. PackedInfo_pack (PackedInfo_vec off sz) packed (Vec v)))"
| "PackedInfo_pack_double_or_arma (PackedInfo_mat off r c) packed r_value =
     (if Rcpp_is_double r_value
      then bind (Rcpp_as_double r_value) (\<lambda>x. subvec_fill packed off (r * c) x)
      else bind (Rcpp_as_mat r_value)
             (\<lambda>m. PackedInfo_pack (PackedInfo_mat off r c) packed (Mat m)))"

definition pack_double_or_arma :: "Packer \<Rightarrow> nat \<Rightarrow> vec \<Rightarrow> SEXP \<Rightarrow> failure + vec" where
  "pack_double_or_arma p i packed r_value =
     PackedInfo_pack_double_or_arma (elements p ! i) packed r_value"

section \<open>Algorithm names and the optimizer configuration\<close>

datatype nlopt_algorithm =
    NLOPT_LD_LBFGS_NOCEDAL
  | NLOPT_LD_LBFGS
  | NLOPT_LD_VAR1
  | NLOPT_LD_VAR2
  | NLOPT_LD_TNEWTON
  | NLOPT_LD_TNEWTON_RESTART
  | NLOPT_LD_TNEWTON_PRECOND
  | NLOPT_LD_TNEWTON_PRECOND_RESTART
  | NLOPT_LD_MMA
  | NLOPT_LD_CCSAQ

definition supported_algorithms :: "(string \<times> nlopt_algorithm) list" where
  "supported_algorithms =
     [(''LBFGS_NOCEDAL'', NLOPT_LD_LBFGS_NOCEDAL),
      (''LBFGS'', NLOPT_LD_LBFGS),
      (''VAR1'', NLOPT_LD_VAR1),
      (''VAR2'', NLOPT_LD_VAR2),
      (''TNEWTON'', NLOPT_LD_TNEWTON),
      (''TNEWTON_RESTART'', NLOPT_LD_TNEWTON_RESTART),
      (''TNEWTON_PRECOND'', NLOPT_LD_TNEWTON_PRECOND),
      (''TNEWTON_PRECOND_RESTART'', NLOPT_LD_TNEWTON_PRECOND_RESTART),
      (''MMA'', NLOPT_LD_MMA),
      (''CCSAQ'', NLOPT_LD_CCSAQ)]"

text \<open>The first loop of \<open>algorithm_from_name\<close>: the first association with the name.\<close>

fun first_match :: "string \<Rightarrow> (string \<times> nlopt_algorithm) list \<Rightarrow> nlopt_algorithm option" where
  "first_match name [] = None"
| "first_match name (association # rest) =
     (if name = fst association then Some (snd association) else first_match name rest)"

text \<open>The second loop: a space and the name of every association, appended in order.\<close>

fun append_names :: "string \<Rightarrow> (string \<times> nlopt_algorithm) list \<Rightarrow> string" where
  "append_names msg [] = msg"
| "append_names msg (association # rest) = append_names (msg @ '' '' @ fst association) rest"

definition algorithm_from_name :: "string \<Rightarrow> failure + nlopt_algorithm" where
  "algorithm_from_name name =
     (case first_match name supported_algorithms of
        Some enum_value \<Rightarrow> Inr enum_value
      | None \<Rightarrow>
          Inl (Rcpp_exception
            (append_names
               (''Unsupported algorithm name: '' @ [CHR 0x22] @ name @ [CHR 0x22, CHR 0x0A]
                  @ ''Supported:'')
               supported_algorithms)))"

record OptimizerConfiguration =
  algorithm :: nlopt_algorithm
  xtol_abs :: vec
  xtol_rel :: real
  ftol_abs :: real
  ftol_rel :: real
  maxeval :: int
  maxtime :: real

text \<open>
  \<open>from_r_list\<close>. The block for \<open>xtol_abs\<close> comes first: a fresh vector of the
  packer's size (its elements are overwritten before use), filled with the single
  double, or packed by the variant's function from the list of by-parameter values,
  or the call fails. Then the other fields are read in the order of the braces, the
  algorithm name first.
\<close>

definition arma_vec :: "nat \<Rightarrow> vec" where
  "arma_vec n = replicate n 0"

definition xtol_abs_from_r_list ::
  "Rcpp_List \<Rightarrow> nat \<Rightarrow> (vec \<Rightarrow> Rcpp_List \<Rightarrow> failure + vec) \<Rightarrow> failure + vec" where
  "xtol_abs_from_r_list list packer_size pack_xtol_abs =
     bind (Rcpp_list_get list ''xtol_abs'') (\<lambda>xtol_abs_r_value.
       if Rcpp_is_double xtol_abs_r_value
       then bind (Rcpp_as_double xtol_abs_r_value) (\<lambda>x. Inr (replicate packer_size x))
       else if Rcpp_is_List xtol_abs_r_value
       then bind (Rcpp_as_List xtol_abs_r_value) (pack_xtol_abs (arma_vec packer_size))
       else Inl (Rcpp_exception
         ''unsupported config[xtol_abs] type: must be double or list of by-parameter values''))"

definition from_r_list ::
  "Rcpp_List \<Rightarrow> nat \<Rightarrow> (vec \<Rightarrow> Rcpp_List \<Rightarrow> failure + vec)
     \<Rightarrow> failure + OptimizerConfiguration" where
  "from_r_list list packer_size pack_xtol_abs =
     bind (xtol_abs_from_r_list list packer_size pack_xtol_abs) (\<lambda>xtol_abs_v.
     bind (bind (bind (Rcpp_list_get list ''algorithm'') Rcpp_as_string) algorithm_from_name)
       (\<lambda>algorithm_v.
     bind (bind (Rcpp_list_get list ''xtol_rel'') Rcpp_as_double) (\<lambda>xtol_rel_v.
     bind (bind (Rcpp_list_get list ''ftol_abs'') Rcpp_as_double) (\<lambda>ftol_abs_v.
     bind (bind (Rcpp_list_get list ''ftol_rel'') Rcpp_as_double) (\<lambda>ftol_rel_v.
     bind (bind (Rcpp_list_get list ''maxeval'') Rcpp_as_int) (\<lambda>maxeval_v.
     bind (bind (Rcpp_list_get list ''maxtime'') Rcpp_as_double) (\<lambda>maxtime_v.
       Inr \<lparr>algorithm = algorithm_v, xtol_abs = xtol_abs_v, xtol_rel = xtol_rel_v,
            ftol_abs = ftol_abs_v, ftol_rel = ftol_rel_v, maxeval = maxeval_v,
            maxtime = maxtime_v\<rparr>)))))))"

text \<open>
  The \<open>pack_xtol_abs\<close> function of a variant: for each of its parameter names in
  order, the list element of that name goes through \<open>pack_double_or_arma\<close> at the
  parameter's packer index (\<open>Theta, M, S\<close>; \<open>Theta, B, M, S\<close>; or \<open>M, S\<close>).
\<close>

fun pack_xtol_abs_from :: "Packer \<Rightarrow> nat \<Rightarrow> string list \<Rightarrow> vec \<Rightarrow> Rcpp_List \<Rightarrow> failure + vec" where
  "pack_xtol_abs_from packer i [] packed list = Inr packed"
| "pack_xtol_abs_from packer i (name # names) packed list =
     bind (Rcpp_list_get list name) (\<lambda>r_value.
     bind (pack_double_or_arma packer i packed r_value) (\<lambda>packed'.
       pack_xtol_abs_from packer (Suc i) names packed' list))"

definition pack_xtol_abs :: "Packer \<Rightarrow> string list \<Rightarrow> vec \<Rightarrow> Rcpp_List \<Rightarrow> failure + vec" where
  "pack_xtol_abs packer names packed list = pack_xtol_abs_from packer 0 names packed list"

section \<open>The optimizer driver\<close>

text \<open>
  The external optimizer is a parameter of the model. Its status codes are those of
  its header. What \<^verbatim>\<open>nlopt_optimize\<close> does with the callback is a \<open>run\<close>: it
  either returns, with a status, the final content of the parameter array and the
  objective value if it stored one, or it calls the objective at a point and goes on
  with the value and the gradient it got back. A run is a finite object, so the
  optimizer is taken to return. The closure is taken to return normally.
\<close>

datatype nlopt_result =
    NLOPT_FAILURE
  | NLOPT_INVALID_ARGS
  | NLOPT_OUT_OF_MEMORY
  | NLOPT_ROUNDOFF_LIMITED
  | NLOPT_FORCED_STOP
  | NLOPT_SUCCESS
  | NLOPT_STOPVAL_REACHED
  | NLOPT_FTOL_REACHED
  | NLOPT_XTOL_REACHED
  | NLOPT_MAXEVAL_REACHED
  | NLOPT_MAXTIME_REACHED

datatype run =
    Return nlopt_result vec "real option"
  | Call vec "real \<times> vec \<Rightarrow> run"

record nlopt =
  nlopt_create :: "nlopt_algorithm \<Rightarrow> nat \<Rightarrow> bool"
  nlopt_set_xtol_abs :: "vec \<Rightarrow> nlopt_result"
  nlopt_set_xtol_rel :: "real \<Rightarrow> nlopt_result"
  nlopt_set_ftol_abs :: "real \<Rightarrow> nlopt_result"
  nlopt_set_ftol_rel :: "real \<Rightarrow> nlopt_result"
  nlopt_set_maxeval :: "int \<Rightarrow> nlopt_result"
  nlopt_set_maxtime :: "real \<Rightarrow> nlopt_result"
  nlopt_set_min_objective :: nlopt_result
  nlopt_optimize :: "OptimizerConfiguration \<Rightarrow> vec \<Rightarrow> run"

record OptimizerResult =
  status :: nlopt_result
  objective :: real
  nb_iterations :: "32 word"

text \<open>
  \<open>OptimData\<close> is the user data of the callback: the iteration count (a C++
  \<open>int\<close>, here a 32-bit word) and the closure. \<open>optim_fn\<close> is the adapter: it
  adds one to the count and calls the closure.
\<close>

record OptimData =
  optim_nb_iterations :: "32 word"
  optim_objective_and_grad_fn :: "vec \<Rightarrow> real \<times> vec"

definition optim_fn :: "vec \<Rightarrow> OptimData \<Rightarrow> (real \<times> vec) \<times> OptimData" where
  "optim_fn x optim_data =
     (optim_objective_and_grad_fn optim_data x,
      optim_data\<lparr>optim_nb_iterations := optim_nb_iterations optim_data + 1\<rparr>)"

text \<open>
  Running the optimizer against the adapter. Besides the user data the model keeps a
  log of what happened, which the program does not have: the creation and the
  destruction of the optimizer and every evaluation of the closure.
\<close>

datatype event = Nlopt_create | Nlopt_destroy | Objective_eval vec

primrec nlopt_run :: "run \<Rightarrow> OptimData \<Rightarrow> event list
    \<Rightarrow> (nlopt_result \<times> vec \<times> real option) \<times> OptimData \<times> event list" where
  "nlopt_run (Return st x opt_f) optim_data evs = ((st, x, opt_f), optim_data, evs)"
| "nlopt_run (Call x continue) optim_data evs =
     (case optim_fn x optim_data of
        (r, optim_data') \<Rightarrow> nlopt_run (continue r) optim_data' (evs @ [Objective_eval x]))"

text \<open>The setters in the order of the source; the first that fails names the error.\<close>

definition check :: "nlopt_result \<Rightarrow> string \<Rightarrow> string option \<Rightarrow> string option" where
  "check r reason rest = (if r \<noteq> NLOPT_SUCCESS then Some reason else rest)"

definition configure :: "nlopt \<Rightarrow> OptimizerConfiguration \<Rightarrow> string option" where
  "configure lib config =
     check (nlopt_set_xtol_abs lib (xtol_abs config)) ''nlopt_set_xtol_abs''
    (check (nlopt_set_xtol_rel lib (xtol_rel config)) ''nlopt_set_xtol_rel''
    (check (nlopt_set_ftol_abs lib (ftol_abs config)) ''nlopt_set_ftol_abs''
    (check (nlopt_set_ftol_rel lib (ftol_rel config)) ''nlopt_set_ftol_rel''
    (check (nlopt_set_maxeval lib (maxeval config)) ''nlopt_set_maxeval''
    (check (nlopt_set_maxtime lib (maxtime config)) ''nlopt_set_maxtime''
    (check (nlopt_set_min_objective lib) ''nlopt_set_min_objective'' None))))))"

text \<open>
  \<open>minimize_objective_on_parameters\<close> returns what the C++ returns or throws, the
  parameter vector as the call leaves it, and the log.
\<close>

definition minimize_objective_on_parameters ::
  "nlopt \<Rightarrow> vec \<Rightarrow> OptimizerConfiguration \<Rightarrow> (vec \<Rightarrow> real \<times> vec)
     \<Rightarrow> (failure + OptimizerResult) \<times> vec \<times> event list" where
  "minimize_objective_on_parameters lib parameters config objective_and_grad_fn =
     (if \<not> (length (xtol_abs config) = length parameters)
      then (Inl (Rcpp_exception ''config.xtol_abs size''), parameters, [])
      else if \<not> nlopt_create lib (algorithm config) (length parameters)
      then (Inl (Rcpp_exception ''nlopt_create''), parameters, [])
      else (case configure lib config of
              Some reason \<Rightarrow>
                (Inl (Rcpp_exception reason), parameters, [Nlopt_create, Nlopt_destroy])
            | None \<Rightarrow>
                (case nlopt_run (nlopt_optimize lib config parameters)
                        \<lparr>optim_nb_iterations = 0,
                         optim_objective_and_grad_fn = objective_and_grad_fn\<rparr>
                        [Nlopt_create] of
                   ((st, x, opt_f), optim_data, evs) \<Rightarrow>
                     (Inr \<lparr>status = st,
                           objective = (case opt_f of None \<Rightarrow> 0 | Some f \<Rightarrow> f),
                           nb_iterations = optim_nb_iterations optim_data\<rparr>,
                      x, evs @ [Nlopt_destroy]))))"

text \<open>
  Every \<open>cpp_optimize_*\<close> entry point builds the configuration from the R list and
  then calls the driver with it (lines 326 and 348 for the full variant): a failed
  configuration ends the call before the driver is entered.
\<close>

definition configure_then_minimize ::
  "nlopt \<Rightarrow> Rcpp_List \<Rightarrow> nat \<Rightarrow> (vec \<Rightarrow> Rcpp_List \<Rightarrow> failure + vec) \<Rightarrow> vec
     \<Rightarrow> (vec \<Rightarrow> real \<times> vec) \<Rightarrow> (failure + OptimizerResult) \<times> vec \<times> event list" where
  "configure_then_minimize lib configuration packer_size pack_xtol parameters fn =
     (case from_r_list configuration packer_size pack_xtol of
        Inl e \<Rightarrow> (Inl e, parameters, [])
      | Inr config \<Rightarrow> minimize_objective_on_parameters lib parameters config fn)"

text \<open>
  What the optimizer's run amounts to, told without the adapter: the points at which
  it evaluates the closure, in order, and what it returns in the end.
\<close>

primrec evaluations :: "run \<Rightarrow> (vec \<Rightarrow> real \<times> vec) \<Rightarrow> vec list" where
  "evaluations (Return st x opt_f) fn = []"
| "evaluations (Call x continue) fn = x # evaluations (continue (fn x)) fn"

primrec final_return :: "run \<Rightarrow> (vec \<Rightarrow> real \<times> vec) \<Rightarrow> nlopt_result \<times> vec \<times> real option" where
  "final_return (Return st x opt_f) fn = (st, x, opt_f)"
| "final_return (Call x continue) fn = final_return (continue (fn x)) fn"

section \<open>Matrix expressions\<close>

text \<open>
  The operations of the linear-algebra library that the objective functions use. An
  expression either has a matrix as its value or fails: with \<open>Arma_logic_error\<close> when
  the library rejects the dimensions of its operands, with \<open>Non_finite\<close> when a
  logarithm or a quotient has no finite value (the C++ goes on with an infinity or a
  NaN there, and every operation that follows in these functions keeps it non-finite).
  A vector is a matrix with one column, a row vector a matrix with one row.
  \<open>elem m i j\<close> is the element in row \<open>i\<close> and column \<open>j\<close>, and \<open>mk r c f\<close> the
  \<open>r\<close> by \<open>c\<close> matrix whose element at \<open>(i, j)\<close> is \<open>f i j\<close>.
\<close>

type_synonym expr = "failure + mat"

definition elem :: "mat \<Rightarrow> nat \<Rightarrow> nat \<Rightarrow> real" where
  "elem m i j = mem m ! (i + j * n_rows m)"

definition mk :: "nat \<Rightarrow> nat \<Rightarrow> (nat \<Rightarrow> nat \<Rightarrow> real) \<Rightarrow> mat" where
  "mk r c f = \<lparr>n_rows = r, n_cols = c, mem = map (\<lambda>k. f (k mod r) (k div r)) [0..<r * c]\<rparr>"

definition colvec :: "vec \<Rightarrow> mat" where
  "colvec v = \<lparr>n_rows = length v, n_cols = 1, mem = v\<rparr>"

text \<open>Element-wise operations of two operands of the same size: \<open>%\<close>, \<open>+\<close>, \<open>-\<close>.\<close>

definition eglue :: "(real \<Rightarrow> real \<Rightarrow> real) \<Rightarrow> expr \<Rightarrow> expr \<Rightarrow> expr" where
  "eglue f a b =
     bind a (\<lambda>x. bind b (\<lambda>y.
       if n_rows x = n_rows y \<and> n_cols x = n_cols y
       then Inr (mk (n_rows x) (n_cols x) (\<lambda>i j. f (elem x i j) (elem y i j)))
       else Inl Arma_logic_error))"

abbreviation arma_schur :: "expr \<Rightarrow> expr \<Rightarrow> expr" where
  "arma_schur a b \<equiv> eglue (*) a b"

abbreviation arma_add :: "expr \<Rightarrow> expr \<Rightarrow> expr" where
  "arma_add a b \<equiv> eglue (+) a b"

abbreviation arma_sub :: "expr \<Rightarrow> expr \<Rightarrow> expr" where
  "arma_sub a b \<equiv> eglue (-) a b"

text \<open>
  Element-wise operations of one operand: \<open>exp\<close>, the product with a scalar, the
  difference with a scalar; and those that can leave the finite numbers: \<open>log\<close>
  (of an element that is not positive), \<open>pow\<close> with a negative exponent and the
  quotient of a scalar by a matrix (at an element that is zero), the quotient by a
  scalar that is zero.
\<close>

definition eop :: "(real \<Rightarrow> real) \<Rightarrow> expr \<Rightarrow> expr" where
  "eop f a = bind a (\<lambda>x. Inr (x\<lparr>mem := map f (mem x)\<rparr>))"

abbreviation arma_exp :: "expr \<Rightarrow> expr" where
  "arma_exp a \<equiv> eop exp a"

abbreviation arma_scale :: "real \<Rightarrow> expr \<Rightarrow> expr" where
  "arma_scale s a \<equiv> eop ((*) s) a"

abbreviation arma_sub_scalar :: "expr \<Rightarrow> real \<Rightarrow> expr" where
  "arma_sub_scalar a s \<equiv> eop (\<lambda>v. v - s) a"

definition arma_log :: "expr \<Rightarrow> expr" where
  "arma_log a =
     bind a (\<lambda>x. if list_all (\<lambda>v. 0 < v) (mem x) then Inr (x\<lparr>mem := map ln (mem x)\<rparr>)
                  else Inl Non_finite)"

definition arma_pow :: "expr \<Rightarrow> int \<Rightarrow> expr" where
  "arma_pow a k =
     bind a (\<lambda>x. if k < 0 \<and> \<not> list_all (\<lambda>v. v \<noteq> 0) (mem x) then Inl Non_finite
                  else Inr (x\<lparr>mem := map (\<lambda>v. v powi k) (mem x)\<rparr>))"

definition arma_scalar_div :: "real \<Rightarrow> expr \<Rightarrow> expr" where
  "arma_scalar_div s a =
     bind a (\<lambda>x. if list_all (\<lambda>v. v \<noteq> 0) (mem x) then Inr (x\<lparr>mem := map (\<lambda>v. s / v) (mem x)\<rparr>)
                  else Inl Non_finite)"

definition arma_div_scalar :: "expr \<Rightarrow> real \<Rightarrow> expr" where
  "arma_div_scalar a s =
     bind a (\<lambda>x. if s = 0 \<and> mem x \<noteq> [] then Inl Non_finite
                  else Inr (x\<lparr>mem := map (\<lambda>v. v / s) (mem x)\<rparr>))"

text \<open>The matrix product and the transpose.\<close>

definition arma_mul :: "expr \<Rightarrow> expr \<Rightarrow> expr" where
  "arma_mul a b =
     bind a (\<lambda>x. bind b (\<lambda>y.
       if n_cols x = n_rows y
       then Inr (mk (n_rows x) (n_cols y)
                  (\<lambda>i j. sum_list (map (\<lambda>k. elem x i k * elem y k j) [0..<n_cols x])))
       else Inl Arma_logic_error))"

definition arma_t :: "expr \<Rightarrow> expr" where
  "arma_t a = bind a (\<lambda>x. Inr (mk (n_cols x) (n_rows x) (\<lambda>i j. elem x j i)))"

text \<open>
  \<^verbatim>\<open>X.each_col() op v\<close> combines every column of \<open>X\<close> with the column vector \<open>v\<close>,
  \<^verbatim>\<open>X.each_row() op r\<close> every row with the row vector \<open>r\<close>; the vector must have
  the matching shape. The quotient by a row with a zero is not finite.
\<close>

definition arma_each_col :: "(real \<Rightarrow> real \<Rightarrow> real) \<Rightarrow> expr \<Rightarrow> expr \<Rightarrow> expr" where
  "arma_each_col f a b =
     bind a (\<lambda>x. bind b (\<lambda>v.
       if n_rows v = n_rows x \<and> n_cols v = 1
       then Inr (mk (n_rows x) (n_cols x) (\<lambda>i j. f (elem x i j) (elem v i 0)))
       else Inl Arma_logic_error))"

definition arma_each_row :: "(real \<Rightarrow> real \<Rightarrow> real) \<Rightarrow> expr \<Rightarrow> expr \<Rightarrow> expr" where
  "arma_each_row f a b =
     bind a (\<lambda>x. bind b (\<lambda>r.
       if n_rows r = 1 \<and> n_cols r = n_cols x
       then Inr (mk (n_rows x) (n_cols x) (\<lambda>i j. f (elem x i j) (elem r 0 j)))
       else Inl Arma_logic_error))"

definition arma_each_row_div :: "expr \<Rightarrow> expr \<Rightarrow> expr" where
  "arma_each_row_div a b =
     bind b (\<lambda>r. bind a (\<lambda>x.
       if 0 < n_rows x \<and> \<not> list_all (\<lambda>v. v \<noteq> 0) (mem r) then Inl Non_finite
       else arma_each_row (/) (Inr x) (Inr r)))"

text \<open>
  \<open>diagmat\<close> of a vector is the square matrix with the vector on its diagonal, of
  another matrix the matrix with everything off the diagonal set to zero;
  \<open>diagvec\<close> is the diagonal as a column; \<open>sum\<close> along dimension 0 gives the row of
  the column sums, along dimension 1 the column of the row sums.
\<close>

definition arma_diagmat :: "expr \<Rightarrow> expr" where
  "arma_diagmat a =
     bind a (\<lambda>x.
       if n_rows x = 1 \<or> n_cols x = 1
       then Inr (mk (n_rows x * n_cols x) (n_rows x * n_cols x)
                  (\<lambda>i j. if i = j then mem x ! i else 0))
       else Inr (mk (n_rows x) (n_cols x) (\<lambda>i j. if i = j then elem x i j else 0)))"

definition arma_diagvec :: "expr \<Rightarrow> expr" where
  "arma_diagvec a = bind a (\<lambda>x. Inr (mk (min (n_rows x) (n_cols x)) 1 (\<lambda>i j. elem x i i)))"

definition arma_sum :: "expr \<Rightarrow> nat \<Rightarrow> expr" where
  "arma_sum a d =
     bind a (\<lambda>x.
       if d = 0
       then Inr (mk 1 (n_cols x) (\<lambda>i j. sum_list (map (\<lambda>k. elem x k j) [0..<n_rows x])))
       else if d = 1
       then Inr (mk (n_rows x) 1 (\<lambda>i j. sum_list (map (\<lambda>k. elem x i k) [0..<n_cols x])))
       else Inl Arma_logic_error)"

text \<open>Scalars out of matrices, and the scalar logarithm and quotient.\<close>

definition arma_accu :: "expr \<Rightarrow> failure + real" where
  "arma_accu a = bind a (\<lambda>x. Inr (sum_list (mem x)))"

definition arma_trace :: "expr \<Rightarrow> failure + real" where
  "arma_trace a =
     bind a (\<lambda>x. Inr (sum_list (map (\<lambda>i. elem x i i) [0..<min (n_rows x) (n_cols x)])))"

definition arma_dot :: "expr \<Rightarrow> expr \<Rightarrow> failure + real" where
  "arma_dot a b =
     bind a (\<lambda>x. bind b (\<lambda>y.
       if n_rows x * n_cols x = n_rows y * n_cols y
       then Inr (sum_list (map2 (*) (mem x) (mem y)))
       else Inl Arma_logic_error))"

definition arma_as_scalar :: "expr \<Rightarrow> failure + real" where
  "arma_as_scalar a =
     bind a (\<lambda>x. if n_rows x = 1 \<and> n_cols x = 1 then Inr (mem x ! 0)
                  else Inl Arma_logic_error)"

definition arma_at :: "mat \<Rightarrow> nat \<Rightarrow> nat \<Rightarrow> failure + real" where
  "arma_at x i j = (if i < n_rows x \<and> j < n_cols x then Inr (elem x i j) else Inl Arma_logic_error)"

definition scalar_log :: "real \<Rightarrow> failure + real" where
  "scalar_log x = (if 0 < x then Inr (ln x) else Inl Non_finite)"

definition scalar_div :: "real \<Rightarrow> real \<Rightarrow> failure + real" where
  "scalar_div a b = (if b = 0 then Inl Non_finite else Inr (a / b))"

text \<open>
  Unpacking into a matrix variable (a vector group becomes a one-column matrix) and
  packing the value of an expression.
\<close>

definition unpack_mat :: "Packer \<Rightarrow> nat \<Rightarrow> vec \<Rightarrow> expr" where
  "unpack_mat p i packed =
     bind (unpack p i packed) (\<lambda>a. case a of Mat m \<Rightarrow> Inr m | Vec v \<Rightarrow> Inr (colvec v))"

definition pack_expr :: "Packer \<Rightarrow> nat \<Rightarrow> vec \<Rightarrow> expr \<Rightarrow> failure + vec" where
  "pack_expr p i packed e = bind e (\<lambda>m. pack p i packed (Mat m))"

section \<open>The objective functions of the variants\<close>

text \<open>
  One definition for each \<open>objective_and_grad\<close> closure, statement by statement. The
  captured observations are \<open>Y\<close>, \<open>X\<close>, the offsets \<open>Offs\<close> (\<open>O\<close> in the source) and the weights \<open>w\<close>, with \<open>w_bar\<close>
  the sum of the weights where the closure captures it. The packer indices are those
  of the variant's \<open>enum\<close>. \<open>inv_sympd\<close> and \<open>log_det\<close> (the real part of the
  library's) are parameters. Each definition returns the closure's locals \<open>S2\<close>, \<open>Z\<close>
  and \<open>A\<close> together with the objective value and the gradient vector, so that they
  can be talked about; \<open>objective_and_grad\<close> keeps the last two.
\<close>

type_synonym closure_result = "mat \<times> mat \<times> mat \<times> real \<times> vec"

definition objective_and_grad :: "failure + closure_result \<Rightarrow> failure + real \<times> vec" where
  "objective_and_grad r = bind r (\<lambda>(S2, Z, A, objective, grad). Inr (objective, grad))"

text \<open>\<open>cpp_optimize_full\<close>, lines 331 to 347. Indices: Theta 0, M 1, S 2.\<close>

definition full_closure ::
  "(mat \<Rightarrow> expr) \<Rightarrow> (mat \<Rightarrow> failure + real) \<Rightarrow> Packer \<Rightarrow> mat \<Rightarrow> mat \<Rightarrow> mat \<Rightarrow> vec \<Rightarrow> real
     \<Rightarrow> vec \<Rightarrow> vec \<Rightarrow> failure + closure_result" where
  "full_closure inv_sympd log_det packer Y X Offs w w_bar parameters grad_storage =
     bind (unpack_mat packer 0 parameters) (\<lambda>Theta.
     bind (unpack_mat packer 1 parameters) (\<lambda>M.
     bind (unpack_mat packer 2 parameters) (\<lambda>S.
     bind (arma_schur (Inr S) (Inr S)) (\<lambda>S2.
     bind (arma_add (arma_add (Inr Offs) (arma_mul (Inr X) (arma_t (Inr Theta)))) (Inr M)) (\<lambda>Z.
     bind (arma_exp (arma_add (Inr Z) (arma_scale (1 / 2) (Inr S2)))) (\<lambda>A.
     bind (arma_scale w_bar
            (bind (arma_add (arma_mul (arma_t (Inr M)) (arma_each_col (*) (Inr M) (Inr (colvec w))))
                            (arma_diagmat (arma_mul (arma_t (Inr (colvec w))) (Inr S2))))
               inv_sympd)) (\<lambda>Omega.
     bind (arma_accu (arma_mul (arma_t (Inr (colvec w)))
            (arma_sub (arma_sub (Inr A) (arma_schur (Inr Y) (Inr Z)))
                      (arma_scale (1 / 2) (arma_log (Inr S2)))))) (\<lambda>acc.
     bind (log_det Omega) (\<lambda>ld.
     bind (pack_expr packer 0 grad_storage
            (arma_mul (arma_t (arma_sub (Inr A) (Inr Y)))
                      (arma_each_col (*) (Inr X) (Inr (colvec w))))) (\<lambda>grad1.
     bind (pack_expr packer 1 grad1
            (arma_mul (arma_diagmat (Inr (colvec w)))
               (arma_sub (arma_add (arma_mul (Inr M) (Inr Omega)) (Inr A)) (Inr Y)))) (\<lambda>grad2.
     bind (pack_expr packer 2 grad2
            (arma_mul (arma_diagmat (Inr (colvec w)))
               (arma_sub
                  (arma_add (arma_each_row (*) (Inr S) (arma_t (arma_diagvec (Inr Omega))))
                            (arma_schur (Inr S) (Inr A)))
                  (arma_pow (Inr S) (- 1))))) (\<lambda>grad3.
       Inr (S2, Z, A, acc - 1 / 2 * w_bar * ld, grad3)))))))))))))"

text \<open>
  \<open>cpp_optimize_spherical\<close>, lines 413 to 431. Indices: Theta 0, M 1, S 2; \<open>S\<close>
  is a vector with one element for each row.
\<close>

definition spherical_closure ::
  "Packer \<Rightarrow> mat \<Rightarrow> mat \<Rightarrow> mat \<Rightarrow> vec \<Rightarrow> real \<Rightarrow> vec \<Rightarrow> vec \<Rightarrow> failure + closure_result" where
  "spherical_closure packer Y X Offs w w_bar parameters grad_storage =
     bind (unpack_mat packer 0 parameters) (\<lambda>Theta.
     bind (unpack_mat packer 1 parameters) (\<lambda>M.
     bind (unpack_mat packer 2 parameters) (\<lambda>S.
     bind (arma_schur (Inr S) (Inr S)) (\<lambda>S2.
     bind (arma_add (arma_add (Inr Offs) (arma_mul (Inr X) (arma_t (Inr Theta)))) (Inr M)) (\<lambda>Z.
     bind (arma_exp (arma_each_col (+) (Inr Z) (arma_scale (1 / 2) (Inr S2)))) (\<lambda>A.
     bind (arma_accu (arma_schur (Inr M) (arma_each_col (*) (Inr M) (Inr (colvec w))))) (\<lambda>mm.
     bind (scalar_div mm (w_bar * real (n_cols Y))) (\<lambda>q1.
     bind (arma_accu (arma_schur (Inr (colvec w)) (Inr S2))) (\<lambda>ws.
     bind (scalar_div ws w_bar) (\<lambda>q2.
     let sigma2 = q1 + q2 in
     bind (arma_accu (arma_mul (arma_diagmat (Inr (colvec w)))
            (arma_sub (Inr A) (arma_schur (Inr Y) (Inr Z))))) (\<lambda>acc1.
     bind (arma_accu (arma_schur (Inr (colvec w)) (arma_log (Inr S2)))) (\<lambda>acc2.
     bind (scalar_log sigma2) (\<lambda>ls.
     bind (pack_expr packer 0 grad_storage
            (arma_mul (arma_t (arma_sub (Inr A) (Inr Y)))
                      (arma_each_col (*) (Inr X) (Inr (colvec w))))) (\<lambda>grad1.
     bind (pack_expr packer 1 grad1
            (arma_mul (arma_diagmat (Inr (colvec w)))
               (arma_sub (arma_add (arma_div_scalar (Inr M) sigma2) (Inr A)) (Inr Y)))) (\<lambda>grad2.
     bind (pack_expr packer 2 grad2
            (arma_schur (Inr (colvec w))
               (arma_sub
                  (arma_sub (arma_schur (Inr S) (arma_sum (Inr A) 1))
                            (arma_scale (real (n_cols Y)) (arma_pow (Inr S) (- 1))))
                  (arma_div_scalar (arma_scale (real (n_cols Y)) (Inr S)) sigma2)))) (\<lambda>grad3.
       Inr (S2, Z, A,
            acc1 - 1 / 2 * real (n_cols Y) * acc2 + 1 / 2 * w_bar * real (n_cols Y) * ls,
            grad3)))))))))))))))))"

text \<open>\<open>cpp_optimize_diagonal\<close>, lines 500 to 516. Indices: Theta 0, M 1, S 2.\<close>

definition diagonal_closure ::
  "Packer \<Rightarrow> mat \<Rightarrow> mat \<Rightarrow> mat \<Rightarrow> vec \<Rightarrow> real \<Rightarrow> vec \<Rightarrow> vec \<Rightarrow> failure + closure_result" where
  "diagonal_closure packer Y X Offs w w_bar parameters grad_storage =
     bind (unpack_mat packer 0 parameters) (\<lambda>Theta.
     bind (unpack_mat packer 1 parameters) (\<lambda>M.
     bind (unpack_mat packer 2 parameters) (\<lambda>S.
     bind (arma_schur (Inr S) (Inr S)) (\<lambda>S2.
     bind (arma_add (arma_add (Inr Offs) (arma_mul (Inr X) (arma_t (Inr Theta)))) (Inr M)) (\<lambda>Z.
     bind (arma_exp (arma_add (Inr Z) (arma_scale (1 / 2) (Inr S2)))) (\<lambda>A.
     bind (arma_div_scalar
            (arma_sum (arma_add (arma_schur (Inr M) (arma_each_col (*) (Inr M) (Inr (colvec w))))
                                (arma_each_col (*) (Inr S2) (Inr (colvec w)))) 0)
            w_bar) (\<lambda>diag_sigma.
     bind (arma_accu (arma_mul (arma_diagmat (Inr (colvec w)))
            (arma_sub (arma_sub (Inr A) (arma_schur (Inr Y) (Inr Z)))
                      (arma_scale (1 / 2) (arma_log (Inr S2)))))) (\<lambda>acc1.
     bind (arma_accu (arma_log (Inr diag_sigma))) (\<lambda>acc2.
     bind (pack_expr packer 0 grad_storage
            (arma_mul (arma_t (arma_sub (Inr A) (Inr Y)))
                      (arma_each_col (*) (Inr X) (Inr (colvec w))))) (\<lambda>grad1.
     bind (pack_expr packer 1 grad1
            (arma_mul (arma_diagmat (Inr (colvec w)))
               (arma_sub (arma_add (arma_each_row_div (Inr M) (Inr diag_sigma)) (Inr A))
                         (Inr Y)))) (\<lambda>grad2.
     bind (pack_expr packer 2 grad2
            (arma_mul (arma_diagmat (Inr (colvec w)))
               (arma_sub
                  (arma_add (arma_each_row (*) (Inr S) (arma_pow (Inr diag_sigma) (- 1)))
                            (arma_schur (Inr S) (Inr A)))
                  (arma_pow (Inr S) (- 1))))) (\<lambda>grad3.
       Inr (S2, Z, A, acc1 + 1 / 2 * w_bar * acc2, grad3)))))))))))))"

text \<open>\<open>cpp_optimize_rank\<close>, lines 587 to 604. Indices: Theta 0, B 1, M 2, S 3.\<close>

definition rank_closure ::
  "Packer \<Rightarrow> mat \<Rightarrow> mat \<Rightarrow> mat \<Rightarrow> vec \<Rightarrow> vec \<Rightarrow> vec \<Rightarrow> failure + closure_result" where
  "rank_closure packer Y X Offs w parameters grad_storage =
     bind (unpack_mat packer 0 parameters) (\<lambda>Theta.
     bind (unpack_mat packer 1 parameters) (\<lambda>B.
     bind (unpack_mat packer 2 parameters) (\<lambda>M.
     bind (unpack_mat packer 3 parameters) (\<lambda>S.
     bind (arma_schur (Inr S) (Inr S)) (\<lambda>S2.
     bind (arma_add (arma_add (Inr Offs) (arma_mul (Inr X) (arma_t (Inr Theta))))
                    (arma_mul (Inr M) (arma_t (Inr B)))) (\<lambda>Z.
     bind (arma_exp (arma_add (Inr Z)
            (arma_mul (arma_scale (1 / 2) (Inr S2)) (arma_t (arma_schur (Inr B) (Inr B)))))) (\<lambda>A.
     bind (arma_accu (arma_mul (arma_diagmat (Inr (colvec w)))
            (arma_sub (Inr A) (arma_schur (Inr Y) (Inr Z))))) (\<lambda>acc1.
     bind (arma_accu (arma_mul (arma_diagmat (Inr (colvec w)))
            (arma_sub_scalar
               (arma_sub (arma_add (arma_schur (Inr M) (Inr M)) (Inr S2)) (arma_log (Inr S2)))
               1))) (\<lambda>acc2.
     bind (pack_expr packer 0 grad_storage
            (arma_mul (arma_t (arma_sub (Inr A) (Inr Y)))
                      (arma_each_col (*) (Inr X) (Inr (colvec w))))) (\<lambda>grad1.
     bind (pack_expr packer 1 grad1
            (arma_add
               (arma_mul (arma_t (arma_mul (arma_diagmat (Inr (colvec w)))
                                           (arma_sub (Inr A) (Inr Y))))
                         (Inr M))
               (arma_schur (arma_mul (arma_t (Inr A)) (arma_each_col (*) (Inr S2) (Inr (colvec w))))
                           (Inr B)))) (\<lambda>grad2.
     bind (pack_expr packer 2 grad2
            (arma_mul (arma_diagmat (Inr (colvec w)))
               (arma_add (arma_mul (arma_sub (Inr A) (Inr Y)) (Inr B)) (Inr M)))) (\<lambda>grad3.
     bind (pack_expr packer 3 grad3
            (arma_mul (arma_diagmat (Inr (colvec w)))
               (arma_add
                  (arma_sub (Inr S) (arma_scalar_div 1 (Inr S)))
                  (arma_schur (arma_mul (Inr A) (arma_schur (Inr B) (Inr B))) (Inr S))))) (\<lambda>grad4.
       Inr (S2, Z, A, acc1 + 1 / 2 * acc2, grad4))))))))))))))"

text \<open>
  \<open>cpp_optimize_sparse\<close>, lines 666 to 682. Indices: Theta 0, M 1, S 2; \<open>Omega\<close>
  is captured. Line 674 adds half of \<open>S\<close>, not of \<open>S2\<close>.
\<close>

definition sparse_closure ::
  "Packer \<Rightarrow> mat \<Rightarrow> mat \<Rightarrow> mat \<Rightarrow> vec \<Rightarrow> mat \<Rightarrow> vec \<Rightarrow> vec \<Rightarrow> failure + closure_result" where
  "sparse_closure packer Y X Offs w Omega parameters grad_storage =
     bind (unpack_mat packer 0 parameters) (\<lambda>Theta.
     bind (unpack_mat packer 1 parameters) (\<lambda>M.
     bind (unpack_mat packer 2 parameters) (\<lambda>S.
     bind (arma_schur (Inr S) (Inr S)) (\<lambda>S2.
     bind (arma_add (arma_add (Inr Offs) (arma_mul (Inr X) (arma_t (Inr Theta)))) (Inr M)) (\<lambda>Z.
     bind (arma_exp (arma_add (Inr Z) (arma_scale (1 / 2) (Inr S)))) (\<lambda>A.
     bind (arma_add (arma_mul (arma_t (Inr M)) (arma_each_col (*) (Inr M) (Inr (colvec w))))
                    (arma_diagmat (arma_mul (arma_t (Inr (colvec w))) (Inr S2)))) (\<lambda>nSigma.
     bind (arma_accu (arma_mul (arma_t (Inr (colvec w)))
            (arma_sub (arma_sub (Inr A) (arma_schur (Inr Y) (Inr Z)))
                      (arma_scale (1 / 2) (arma_log (Inr S2)))))) (\<lambda>acc.
     bind (arma_trace (arma_mul (Inr Omega) (Inr nSigma))) (\<lambda>tr.
     bind (pack_expr packer 0 grad_storage
            (arma_mul (arma_t (arma_sub (Inr A) (Inr Y)))
                      (arma_each_col (*) (Inr X) (Inr (colvec w))))) (\<lambda>grad1.
     bind (pack_expr packer 1 grad1
            (arma_mul (arma_diagmat (Inr (colvec w)))
               (arma_sub (arma_add (arma_mul (Inr M) (Inr Omega)) (Inr A)) (Inr Y)))) (\<lambda>grad2.
     bind (pack_expr packer 2 grad2
            (arma_mul (arma_diagmat (Inr (colvec w)))
               (arma_sub
                  (arma_add (arma_each_row (*) (Inr S) (arma_t (arma_diagvec (Inr Omega))))
                            (arma_schur (Inr S) (Inr A)))
                  (arma_pow (Inr S) (- 1))))) (\<lambda>grad3.
       Inr (S2, Z, A, acc - tr, grad3)))))))))))))"

text \<open>
  \<open>cpp_optimize_vestep_full\<close>, lines 741 to 755. Indices: M 0, S 1; \<open>Theta\<close> and
  \<open>Omega\<close> are captured.
\<close>

definition vestep_full_closure ::
  "Packer \<Rightarrow> mat \<Rightarrow> mat \<Rightarrow> mat \<Rightarrow> vec \<Rightarrow> mat \<Rightarrow> mat \<Rightarrow> vec \<Rightarrow> vec \<Rightarrow> failure + closure_result" where
  "vestep_full_closure packer Y X Offs w Theta Omega parameters grad_storage =
     bind (unpack_mat packer 0 parameters) (\<lambda>M.
     bind (unpack_mat packer 1 parameters) (\<lambda>S.
     bind (arma_schur (Inr S) (Inr S)) (\<lambda>S2.
     bind (arma_add (arma_add (Inr Offs) (arma_mul (Inr X) (arma_t (Inr Theta)))) (Inr M)) (\<lambda>Z.
     bind (arma_exp (arma_add (Inr Z) (arma_scale (1 / 2) (Inr S2)))) (\<lambda>A.
     bind (arma_add (arma_mul (arma_mul (arma_t (Inr M)) (arma_diagmat (Inr (colvec w)))) (Inr M))
                    (arma_diagmat (arma_sum (arma_each_col (*) (Inr S2) (Inr (colvec w))) 0)))
       (\<lambda>nSigma.
     bind (arma_accu (arma_mul (arma_t (Inr (colvec w)))
            (arma_sub (arma_sub (Inr A) (arma_schur (Inr Y) (Inr Z)))
                      (arma_scale (1 / 2) (arma_log (Inr S2)))))) (\<lambda>acc.
     bind (arma_trace (arma_mul (Inr Omega) (Inr nSigma))) (\<lambda>tr.
     bind (pack_expr packer 0 grad_storage
            (arma_mul (arma_diagmat (Inr (colvec w)))
               (arma_sub (arma_add (arma_mul (Inr M) (Inr Omega)) (Inr A)) (Inr Y)))) (\<lambda>grad1.
     bind (pack_expr packer 1 grad1
            (arma_mul (arma_diagmat (Inr (colvec w)))
               (arma_sub
                  (arma_add (arma_each_row (*) (Inr S) (arma_t (arma_diagvec (Inr Omega))))
                            (arma_schur (Inr S) (Inr A)))
                  (arma_pow (Inr S) (- 1))))) (\<lambda>grad2.
       Inr (S2, Z, A, acc + 1 / 2 * tr, grad2)))))))))))"

text \<open>
  \<open>cpp_optimize_vestep_diagonal\<close>, lines 805 to 820. Indices: M 0, S 1. Line 812
  adds half of \<open>S\<close>, not of \<open>S2\<close>; line 818 hands the column \<open>omega2\<close> to
  \<open>each_row\<close>.
\<close>

definition vestep_diagonal_closure ::
  "Packer \<Rightarrow> mat \<Rightarrow> mat \<Rightarrow> mat \<Rightarrow> vec \<Rightarrow> mat \<Rightarrow> mat \<Rightarrow> vec \<Rightarrow> vec \<Rightarrow> failure + closure_result" where
  "vestep_diagonal_closure packer Y X Offs w Theta Omega parameters grad_storage =
     bind (unpack_mat packer 0 parameters) (\<lambda>M.
     bind (unpack_mat packer 1 parameters) (\<lambda>S.
     bind (arma_schur (Inr S) (Inr S)) (\<lambda>S2.
     bind (arma_add (arma_add (Inr Offs) (arma_mul (Inr X) (arma_t (Inr Theta)))) (Inr M)) (\<lambda>Z.
     bind (arma_exp (arma_add (Inr Z) (arma_scale (1 / 2) (Inr S)))) (\<lambda>A.
     bind (arma_diagvec (Inr Omega)) (\<lambda>omega2.
     bind (arma_accu (arma_mul (arma_t (Inr (colvec w)))
            (arma_sub (arma_sub (Inr A) (arma_schur (Inr Y) (Inr Z)))
                      (arma_scale (1 / 2) (arma_log (Inr S2)))))) (\<lambda>acc.
     bind (arma_as_scalar
            (arma_mul (arma_mul (arma_t (Inr (colvec w))) (arma_add (arma_pow (Inr M) 2) (Inr S2)))
                      (Inr omega2))) (\<lambda>quad.
     bind (pack_expr packer 0 grad_storage
            (arma_mul (arma_diagmat (Inr (colvec w)))
               (arma_sub (arma_add (arma_mul (Inr M) (Inr Omega)) (Inr A)) (Inr Y)))) (\<lambda>grad1.
     bind (pack_expr packer 1 grad1
            (arma_mul (arma_diagmat (Inr (colvec w)))
               (arma_sub
                  (arma_add (arma_each_row (*) (Inr S) (Inr omega2))
                            (arma_schur (Inr S) (Inr A)))
                  (arma_pow (Inr S) (- 1))))) (\<lambda>grad2.
       Inr (S2, Z, A, acc + 1 / 2 * quad, grad2)))))))))))"

text \<open>
  \<open>cpp_optimize_vestep_spherical\<close>, lines 871 to 887. Indices: M 0, S 1; \<open>S\<close> is
  a vector with one element for each row.
\<close>

definition vestep_spherical_closure ::
  "Packer \<Rightarrow> mat \<Rightarrow> mat \<Rightarrow> mat \<Rightarrow> vec \<Rightarrow> mat \<Rightarrow> mat \<Rightarrow> vec \<Rightarrow> vec \<Rightarrow> failure + closure_result" where
  "vestep_spherical_closure packer Y X Offs w Theta Omega parameters grad_storage =
     bind (unpack_mat packer 0 parameters) (\<lambda>M.
     bind (unpack_mat packer 1 parameters) (\<lambda>S.
     bind (arma_schur (Inr S) (Inr S)) (\<lambda>S2.
     bind (arma_add (arma_add (Inr Offs) (arma_mul (Inr X) (arma_t (Inr Theta)))) (Inr M)) (\<lambda>Z.
     bind (arma_exp (arma_each_col (+) (Inr Z) (arma_scale (1 / 2) (Inr S2)))) (\<lambda>A.
     bind (arma_dot (Inr (colvec w))
            (arma_add (arma_sum (arma_pow (Inr M) 2) 1) (arma_scale (real (n_cols Y)) (Inr S))))
       (\<lambda>n_sigma2.
     bind (arma_at Omega 0 0) (\<lambda>omega2.
     bind (arma_accu (arma_mul (arma_t (Inr (colvec w)))
            (arma_sub (Inr A) (arma_schur (Inr Y) (Inr Z))))) (\<lambda>acc1.
     bind (arma_dot (Inr (colvec w)) (arma_log (Inr S2))) (\<lambda>acc2.
     bind (pack_expr packer 0 grad_storage
            (arma_mul (arma_diagmat (Inr (colvec w)))
               (arma_sub (arma_add (arma_scale omega2 (Inr M)) (Inr A)) (Inr Y)))) (\<lambda>grad1.
     bind (pack_expr packer 1 grad1
            (arma_schur (Inr (colvec w))
               (arma_sub
                  (arma_sub (arma_schur (Inr S) (arma_sum (Inr A) 1))
                            (arma_scale (real (n_cols Y)) (arma_pow (Inr S) (- 1))))
                  (arma_scale omega2 (arma_scale (real (n_cols Y)) (Inr S)))))) (\<lambda>grad2.
       Inr (S2, Z, A,
            acc1 - 1 / 2 * real (n_cols Y) * acc2 + 1 / 2 * n_sigma2 * omega2,
            grad2))))))))))))"




section \<open>A small optimizer and objective for the examples\<close>

text \<open>
  An optimizer that accepts every setting, evaluates the objective at the start point,
  steps against the gradient, evaluates again and returns there with the status it
  is given; and the objective of the internal test, \<open>x\<^sup>2\<close> in one dimension.
\<close>

definition gradient_step_nlopt :: "nlopt_result \<Rightarrow> nlopt" where
  "gradient_step_nlopt st =
     \<lparr>nlopt_create = (\<lambda>a n. True),
      nlopt_set_xtol_abs = (\<lambda>v. NLOPT_SUCCESS),
      nlopt_set_xtol_rel = (\<lambda>t. NLOPT_SUCCESS),
      nlopt_set_ftol_abs = (\<lambda>t. NLOPT_SUCCESS),
      nlopt_set_ftol_rel = (\<lambda>t. NLOPT_SUCCESS),
      nlopt_set_maxeval = (\<lambda>k. NLOPT_SUCCESS),
      nlopt_set_maxtime = (\<lambda>t. NLOPT_SUCCESS),
      nlopt_set_min_objective = NLOPT_SUCCESS,
      nlopt_optimize = (\<lambda>config x.
        Call x (\<lambda>r. Call (map2 (-) x (snd r))
          (\<lambda>r'. Return st (map2 (-) x (snd r)) (Some (fst r')))))\<rparr>"

definition f_and_grad :: "vec \<Rightarrow> real \<times> vec" where
  "f_and_grad x = (x ! 0 * x ! 0, [2 * x ! 0])"

definition test_config :: OptimizerConfiguration where
  "test_config =
     \<lparr>algorithm = NLOPT_LD_LBFGS, xtol_abs = [1 / 1000000], xtol_rel = 1 / 1000000,
      ftol_abs = 1 / 1000000, ftol_rel = 1 / 1000000, maxeval = 100, maxtime = 100\<rparr>"

text \<open>
  For the examples on one-by-one data: the inverse and the logarithm of the
  determinant of a positive one-by-one matrix, and the one-by-one matrix of a number.
\<close>

definition inv_sympd_1x1 :: "mat \<Rightarrow> expr" where
  "inv_sympd_1x1 m =
     (if n_rows m = 1 \<and> n_cols m = 1 \<and> 0 < elem m 0 0
      then Inr \<lparr>n_rows = 1, n_cols = 1, mem = [1 / elem m 0 0]\<rparr>
      else Inl Arma_runtime_error)"

definition log_det_1x1 :: "mat \<Rightarrow> failure + real" where
  "log_det_1x1 m =
     (if n_rows m = 1 \<and> n_cols m = 1 then scalar_log (elem m 0 0) else Inl Arma_runtime_error)"

definition one_by_one :: "real \<Rightarrow> mat" where
  "one_by_one x = \<lparr>n_rows = 1, n_cols = 1, mem = [x]\<rparr>"

section \<open>Properties of the packer\<close>

lemma make_elements_Cons:
  "make_elements (v # vs) k =
     (fst (PackedInfo_new v k) # fst (make_elements vs (snd (PackedInfo_new v k))),
      snd (make_elements vs (snd (PackedInfo_new v k))))"
  by (simp split: prod.splits)

lemma PackedInfo_new_facts:
  "offset (fst (PackedInfo_new v k)) = k"
  "info_size (fst (PackedInfo_new v k)) = n_elem v"
  "snd (PackedInfo_new v k) = k + n_elem v"
  by (cases v; simp add: n_elem_def)+

lemma make_elements_length:
  "length (fst (make_elements vs k)) = length vs"
  by (induction vs arbitrary: k) (simp_all add: make_elements_Cons del: make_elements.simps(2))

lemma make_elements_final:
  "snd (make_elements vs k) = k + sum_list (map n_elem vs)"
  by (induction vs arbitrary: k)
    (simp_all add: make_elements_Cons PackedInfo_new_facts del: make_elements.simps(2))

lemma make_elements_offset:
  "i < length vs \<Longrightarrow>
   offset (fst (make_elements vs k) ! i) = k + sum_list (map n_elem (take i vs))"
proof (induction vs arbitrary: k i)
  case Nil
  then show ?case by simp
next
  case (Cons v vs)
  show ?case
  proof (cases i)
    case 0
    then show ?thesis
      by (simp add: make_elements_Cons PackedInfo_new_facts del: make_elements.simps(2))
  next
    case (Suc j)
    with Cons.prems have j: "j < length vs" by simp
    show ?thesis
      using Cons.IH [OF j, of "snd (PackedInfo_new v k)"] Suc
      by (simp add: make_elements_Cons PackedInfo_new_facts del: make_elements.simps(2))
  qed
qed

lemma make_elements_info_size:
  "i < length vs \<Longrightarrow> info_size (fst (make_elements vs k) ! i) = n_elem (vs ! i)"
proof (induction vs arbitrary: k i)
  case Nil
  then show ?case by simp
next
  case (Cons v vs)
  show ?case
  proof (cases i)
    case 0
    then show ?thesis
      by (simp add: make_elements_Cons PackedInfo_new_facts del: make_elements.simps(2))
  next
    case (Suc j)
    with Cons.prems have j: "j < length vs" by simp
    show ?thesis
      using Cons.IH [OF j, of "snd (PackedInfo_new v k)"] Suc
      by (simp add: make_elements_Cons del: make_elements.simps(2))
  qed
qed

lemma elements_make_packer: "elements (make_packer vs) = fst (make_elements vs 0)"
  by (simp add: make_packer_def split: prod.splits)

lemma size_make_packer: "size_p (make_packer vs) = sum_list (map n_elem vs)"
  using make_elements_final [of vs 0] by (cases "make_elements vs 0") (simp add: make_packer_def)

lemma sum_list_take_Suc_le:
  fixes f :: "'a \<Rightarrow> nat"
  shows "i < length xs \<Longrightarrow> sum_list (map f (take i xs)) + f (xs ! i) \<le> sum_list (map f xs)"
proof (induction xs arbitrary: i)
  case Nil
  then show ?case by simp
next
  case (Cons x xs)
  then show ?case by (cases i) auto
qed

lemma make_packer_slice_in_range:
  assumes "i < length vs"
  shows "offset (elements (make_packer vs) ! i) + info_size (elements (make_packer vs) ! i)
         \<le> size_p (make_packer vs)"
  using assms make_elements_offset [OF assms, of 0] make_elements_info_size [OF assms, of 0]
    sum_list_take_Suc_le [OF assms, of n_elem]
  by (simp add: elements_make_packer size_make_packer)

text \<open>
  C9. For the groups \<open>vs\<close> in order, the info of group \<open>i\<close> starts at the sum of the
  sizes of the groups before it, the packer's size is the sum of all sizes, and the
  slice of every group, of size zero or not, ends inside the packed vector. The
  groups of the internal test (an empty vector, a 4 x 10 matrix, a vector of 7 twice)
  get the offsets 0, 0, 40, 47 and the size 54, whatever their elements.
\<close>

theorem make_packer_offsets:
  "(i < length vs \<longrightarrow>
      offset (elements (make_packer vs) ! i) = sum_list (map n_elem (take i vs)) \<and>
      info_size (elements (make_packer vs) ! i) = n_elem (vs ! i) \<and>
      offset (elements (make_packer vs) ! i) + n_elem (vs ! i) \<le> size_p (make_packer vs)) \<and>
   length (elements (make_packer vs)) = length vs \<and>
   size_p (make_packer vs) = sum_list (map n_elem vs) \<and>
   (n_rows a = 4 \<and> n_cols a = 10 \<and> length b = 7 \<longrightarrow>
      map offset (elements (make_packer [Vec [], Mat a, Vec b, Vec b])) = [0, 0, 40, 47] \<and>
      size_p (make_packer [Vec [], Mat a, Vec b, Vec b]) = 54)"
proof -
  have one: "i < length vs \<longrightarrow>
      offset (elements (make_packer vs) ! i) = sum_list (map n_elem (take i vs)) \<and>
      info_size (elements (make_packer vs) ! i) = n_elem (vs ! i) \<and>
      offset (elements (make_packer vs) ! i) + n_elem (vs ! i) \<le> size_p (make_packer vs)"
  proof
    assume i: "i < length vs"
    show "offset (elements (make_packer vs) ! i) = sum_list (map n_elem (take i vs)) \<and>
      info_size (elements (make_packer vs) ! i) = n_elem (vs ! i) \<and>
      offset (elements (make_packer vs) ! i) + n_elem (vs ! i) \<le> size_p (make_packer vs)"
      using make_elements_offset [OF i, of 0] make_elements_info_size [OF i, of 0]
        make_packer_slice_in_range [OF i]
      by (simp add: elements_make_packer)
  qed
  have two: "length (elements (make_packer vs)) = length vs"
    by (simp add: elements_make_packer make_elements_length)
  have three: "n_rows a = 4 \<and> n_cols a = 10 \<and> length b = 7 \<longrightarrow>
      map offset (elements (make_packer [Vec [], Mat a, Vec b, Vec b])) = [0, 0, 40, 47] \<and>
      size_p (make_packer [Vec [], Mat a, Vec b, Vec b]) = 54"
    by (simp add: make_packer_def)
  from one two three size_make_packer show ?thesis by blast
qed

theorem make_packer_offsets_witness:
  "offset (elements (make_packer [Vec [], Mat \<lparr>n_rows = 4, n_cols = 10, mem = replicate 40 1\<rparr>,
       Vec (replicate 7 2), Vec (replicate 7 2)]) ! 1) = 0 \<and>
   offset (elements (make_packer [Vec [], Mat \<lparr>n_rows = 4, n_cols = 10, mem = replicate 40 1\<rparr>,
       Vec (replicate 7 2), Vec (replicate 7 2)]) ! 3) = 47 \<and>
   map offset (elements (make_packer [Vec [], Mat \<lparr>n_rows = 4, n_cols = 10, mem = replicate 40 1\<rparr>,
       Vec (replicate 7 2), Vec (replicate 7 2)])) = [0, 0, 40, 47] \<and>
   size_p (make_packer [Vec [], Mat \<lparr>n_rows = 4, n_cols = 10, mem = replicate 40 1\<rparr>,
       Vec (replicate 7 2), Vec (replicate 7 2)]) = 54"
  using
    make_packer_offsets [of 1 "[Vec [], Mat \<lparr>n_rows = 4, n_cols = 10, mem = replicate 40 1\<rparr>,
       Vec (replicate 7 2), Vec (replicate 7 2)]"
       "\<lparr>n_rows = 4, n_cols = 10, mem = replicate 40 1\<rparr>" "replicate 7 2"]
    make_packer_offsets [of 3 "[Vec [], Mat \<lparr>n_rows = 4, n_cols = 10, mem = replicate 40 1\<rparr>,
       Vec (replicate 7 2), Vec (replicate 7 2)]"
       "\<lparr>n_rows = 4, n_cols = 10, mem = replicate 40 1\<rparr>" "replicate 7 2"]
  by (simp add: n_elem_def)

lemma bind_Inr [simp]: "bind (Inr x) f = f x"
  by (simp add: bind_def)

lemma bind_Inl [simp]: "bind (Inl e) f = Inl e"
  by (simp add: bind_def)

lemma subvec_after_assign:
  assumes "off + n \<le> length packed" "length x = n"
  shows "subvec_assign packed off n x = Inr (take off packed @ x @ drop (off + n) packed)"
    and "subvec (take off packed @ x @ drop (off + n) packed) off n = Inr x"
  using assms by (simp_all add: subvec_assign_def subvec_def)

lemma reshape_same:
  "mat_ok m \<Longrightarrow> reshape (mem m) (n_rows m) (n_cols m) = m"
  by (simp add: reshape_def mat_ok_def)

lemma PackedInfo_roundtrip:
  assumes "offset info + info_size info \<le> length packed" "fits info v"
  shows "\<exists>packed'. PackedInfo_pack info packed v = Inr packed' \<and>
           length packed' = length packed \<and> PackedInfo_unpack info packed' = Inr v"
proof (cases info)
  case (PackedInfo_vec off sz)
  with assms obtain x where v: "v = Vec x" and x: "length x = sz"
    by (cases v) auto
  from assms PackedInfo_vec have r: "off + sz \<le> length packed" by simp
  show ?thesis
    using subvec_after_assign [OF r x] r x
    by (simp add: PackedInfo_vec v)
next
  case (PackedInfo_mat off r c)
  with assms obtain m where v: "v = Mat m" and m: "n_rows m = r" "n_cols m = c" "mat_ok m"
    by (cases v) auto
  from m have x: "length (mem m) = r * c" by (simp add: mat_ok_def)
  from assms PackedInfo_mat have rg: "off + r * c \<le> length packed" by simp
  show ?thesis
    using subvec_after_assign [OF rg x] rg x reshape_same [OF m(3)] m
    by (simp add: PackedInfo_mat v vectorise_def)
qed

text \<open>
  C2. For a packer made from the groups \<open>vs\<close>, a packed vector that has room for
  the packer's size, a group index \<open>i\<close> and a value \<open>v\<close> of the group's shape (a vector
  of the group's length, or a matrix with the group's rows and columns): packing
  \<open>v\<close> into group \<open>i\<close> succeeds, keeps the length of the packed vector, and
  unpacking group \<open>i\<close> from the result returns exactly \<open>v\<close>.
\<close>

theorem pack_unpack_roundtrip:
  assumes "i < length vs" "size_p (make_packer vs) \<le> length packed"
    "fits (elements (make_packer vs) ! i) v"
  shows "\<exists>packed'. pack (make_packer vs) i packed v = Inr packed' \<and>
           length packed' = length packed \<and>
           unpack (make_packer vs) i packed' = Inr v"
proof -
  have "offset (elements (make_packer vs) ! i) + info_size (elements (make_packer vs) ! i)
          \<le> length packed"
    using make_packer_slice_in_range [OF assms(1)] assms(2) by simp
  from PackedInfo_roundtrip [OF this assms(3)] show ?thesis
    by (simp add: pack_def unpack_def)
qed

theorem pack_unpack_roundtrip_witness:
  "(\<exists>packed'.
      pack (make_packer [Vec [], Mat \<lparr>n_rows = 2, n_cols = 2, mem = [0, 0, 0, 0]\<rparr>, Vec [0, 0]])
        1 [9, 9, 9, 9, 9, 9] (Mat \<lparr>n_rows = 2, n_cols = 2, mem = [1, 2, 3, 4]\<rparr>) = Inr packed' \<and>
      length packed' = length [9, 9, 9, 9, 9, 9 :: real] \<and>
      unpack (make_packer [Vec [], Mat \<lparr>n_rows = 2, n_cols = 2, mem = [0, 0, 0, 0]\<rparr>, Vec [0, 0]])
        1 packed' = Inr (Mat \<lparr>n_rows = 2, n_cols = 2, mem = [1, 2, 3, 4]\<rparr>)) \<and>
   (\<exists>packed'.
      pack (make_packer [Vec [], Mat \<lparr>n_rows = 2, n_cols = 2, mem = [0, 0, 0, 0]\<rparr>, Vec [0, 0]])
        2 [9, 9, 9, 9, 9, 9] (Vec [5, 6]) = Inr packed' \<and>
      length packed' = length [9, 9, 9, 9, 9, 9 :: real] \<and>
      unpack (make_packer [Vec [], Mat \<lparr>n_rows = 2, n_cols = 2, mem = [0, 0, 0, 0]\<rparr>, Vec [0, 0]])
        2 packed' = Inr (Vec [5, 6])) \<and>
   pack (make_packer [Vec [], Mat \<lparr>n_rows = 2, n_cols = 2, mem = [0, 0, 0, 0]\<rparr>, Vec [0, 0]])
     1 [9, 9, 9, 9, 9, 9] (Mat \<lparr>n_rows = 2, n_cols = 2, mem = [1, 2, 3, 4]\<rparr>)
     = Inr [1, 2, 3, 4, 9, 9]"
proof -
  let ?vs = "[Vec [], Mat \<lparr>n_rows = 2, n_cols = 2, mem = [0, 0, 0, 0]\<rparr>, Vec [0, 0]]"
  have els: "elements (make_packer ?vs) = [PackedInfo_vec 0 0, PackedInfo_mat 0 2 2, PackedInfo_vec 4 2]"
    and sz: "size_p (make_packer ?vs) = 6"
    by (simp_all add: make_packer_def)
  have a: "fits (elements (make_packer ?vs) ! 1) (Mat \<lparr>n_rows = 2, n_cols = 2, mem = [1, 2, 3, 4]\<rparr>)"
    by (simp add: els mat_ok_def)
  have b: "fits (elements (make_packer ?vs) ! 2) (Vec [5, 6])"
    by (simp add: els)
  have c: "pack (make_packer ?vs) 1 [9, 9, 9, 9, 9, 9]
      (Mat \<lparr>n_rows = 2, n_cols = 2, mem = [1, 2, 3, 4]\<rparr>) = Inr [1, 2, 3, 4, 9, 9]"
    by (simp add: pack_def els subvec_assign_def vectorise_def)
  show ?thesis
    using pack_unpack_roundtrip [of 1 ?vs "[9, 9, 9, 9, 9, 9]", OF _ _ a]
      pack_unpack_roundtrip [of 2 ?vs "[9, 9, 9, 9, 9, 9]", OF _ _ b] c
    by (simp add: sz)
qed

section \<open>Properties of the tolerance packing\<close>

lemma PackedInfo_pack_double:
  assumes "offset info + info_size info \<le> length packed"
  shows "PackedInfo_pack_double_or_arma info packed (REALSXP [x] d) =
           Inr (take (offset info) packed @ replicate (info_size info) x
                  @ drop (offset info + info_size info) packed)"
  using assms by (cases info) (simp_all add: subvec_fill_def)

lemma PackedInfo_pack_arma_vec:
  assumes "off + sz \<le> length packed" "length xs = sz"
  shows "PackedInfo_pack_double_or_arma (PackedInfo_vec off sz) packed (REALSXP xs d) =
           Inr (take off packed @ xs @ drop (off + sz) packed)"
proof (cases "Rcpp_is_double (REALSXP xs d)")
  case True
  then obtain x where xs: "xs = [x]" by (cases xs) auto
  with assms have "sz = Suc 0" by simp
  with assms xs show ?thesis by (simp add: subvec_fill_def)
next
  case False
  have "PackedInfo_pack_double_or_arma (PackedInfo_vec off sz) packed (REALSXP xs d) =
          subvec_assign packed off sz xs"
    using False by (simp del: Rcpp_is_double.simps)
  with assms show ?thesis by (simp add: subvec_assign_def)
qed

lemma PackedInfo_pack_arma_mat:
  assumes "off + r * c \<le> length packed" "length xs = r * c"
  shows "PackedInfo_pack_double_or_arma (PackedInfo_mat off r c) packed (REALSXP xs (Some (r, c))) =
           Inr (take off packed @ xs @ drop (off + r * c) packed)"
proof (cases "Rcpp_is_double (REALSXP xs (Some (r, c)))")
  case True
  then obtain x where xs: "xs = [x]" by (cases xs) auto
  with assms have "r * c = Suc 0" by simp
  with assms xs show ?thesis by (simp add: subvec_fill_def)
next
  case False
  have "PackedInfo_pack_double_or_arma (PackedInfo_mat off r c) packed (REALSXP xs (Some (r, c))) =
          subvec_assign packed off (r * c) xs"
    using False by (simp add: vectorise_def del: Rcpp_is_double.simps)
  with assms show ?thesis by (simp add: subvec_assign_def)
qed

lemma xtol_abs_unsupported_type:
  assumes "map_of list ''xtol_abs'' = Some s" "\<not> Rcpp_is_double s" "\<not> Rcpp_is_List s"
  shows "from_r_list list n pk = Inl (Rcpp_exception
         ''unsupported config[xtol_abs] type: must be double or list of by-parameter values'')"
  using assms by (simp add: from_r_list_def xtol_abs_from_r_list_def Rcpp_list_get_def)

text \<open>
  C8. For group \<open>i\<close> of a packer and a packed vector with room for it,
  \<open>pack_double_or_arma\<close> with a single double \<open>x\<close> writes \<open>x\<close> to every element of
  the group's slice and leaves the rest; with a numeric vector of the group's
  length (vector group) or a numeric matrix of the group's rows and columns (matrix
  group) it writes the elements in order into the slice and leaves the rest. And
  \<open>from_r_list\<close> fails with the exception "unsupported config[xtol_abs] type ..."
  when the \<open>xtol_abs\<close> entry is neither a single double nor a list.
\<close>

theorem pack_double_or_arma_broadcast:
  "(i < length vs \<and> size_p (make_packer vs) \<le> length packed \<longrightarrow>
      pack_double_or_arma (make_packer vs) i packed (REALSXP [x] d) =
        Inr (take (offset (elements (make_packer vs) ! i)) packed
               @ replicate (n_elem (vs ! i)) x
               @ drop (offset (elements (make_packer vs) ! i) + n_elem (vs ! i)) packed) \<and>
      (elements (make_packer vs) ! i = PackedInfo_vec off sz \<and> length xs = sz \<longrightarrow>
         pack_double_or_arma (make_packer vs) i packed (REALSXP xs d) =
           Inr (take off packed @ xs @ drop (off + sz) packed)) \<and>
      (elements (make_packer vs) ! i = PackedInfo_mat off r c \<and> length xs = r * c \<longrightarrow>
         pack_double_or_arma (make_packer vs) i packed (REALSXP xs (Some (r, c))) =
           Inr (take off packed @ xs @ drop (off + r * c) packed))) \<and>
   (map_of list ''xtol_abs'' = Some s \<and> \<not> Rcpp_is_double s \<and> \<not> Rcpp_is_List s \<longrightarrow>
      from_r_list list n pk = Inl (Rcpp_exception
         ''unsupported config[xtol_abs] type: must be double or list of by-parameter values''))"
proof -
  have packs: "pack_double_or_arma (make_packer vs) i packed (REALSXP [x] d) =
        Inr (take (offset (elements (make_packer vs) ! i)) packed
               @ replicate (n_elem (vs ! i)) x
               @ drop (offset (elements (make_packer vs) ! i) + n_elem (vs ! i)) packed) \<and>
      (elements (make_packer vs) ! i = PackedInfo_vec off sz \<and> length xs = sz \<longrightarrow>
         pack_double_or_arma (make_packer vs) i packed (REALSXP xs d) =
           Inr (take off packed @ xs @ drop (off + sz) packed)) \<and>
      (elements (make_packer vs) ! i = PackedInfo_mat off r c \<and> length xs = r * c \<longrightarrow>
         pack_double_or_arma (make_packer vs) i packed (REALSXP xs (Some (r, c))) =
           Inr (take off packed @ xs @ drop (off + r * c) packed))"
    if i: "i < length vs" and len: "size_p (make_packer vs) \<le> length packed"
  proof -
    have rg: "offset (elements (make_packer vs) ! i) + info_size (elements (make_packer vs) ! i)
            \<le> length packed"
      using make_packer_slice_in_range [OF i] len by simp
    have sz: "info_size (elements (make_packer vs) ! i) = n_elem (vs ! i)"
      using make_elements_info_size [OF i, of 0] by (simp add: elements_make_packer)
    have a: "pack_double_or_arma (make_packer vs) i packed (REALSXP [x] d) =
        Inr (take (offset (elements (make_packer vs) ! i)) packed
               @ replicate (n_elem (vs ! i)) x
               @ drop (offset (elements (make_packer vs) ! i) + n_elem (vs ! i)) packed)"
      using PackedInfo_pack_double [OF rg, of x d] sz by (simp add: pack_double_or_arma_def)
    have b: "pack_double_or_arma (make_packer vs) i packed (REALSXP xs d) =
           Inr (take off packed @ xs @ drop (off + sz) packed)"
      if "elements (make_packer vs) ! i = PackedInfo_vec off sz" "length xs = sz"
      using that rg PackedInfo_pack_arma_vec [of off sz packed xs d]
      by (simp add: pack_double_or_arma_def)
    have c: "pack_double_or_arma (make_packer vs) i packed (REALSXP xs (Some (r, c))) =
           Inr (take off packed @ xs @ drop (off + r * c) packed)"
      if "elements (make_packer vs) ! i = PackedInfo_mat off r c" "length xs = r * c"
      using that rg PackedInfo_pack_arma_mat [of off r c packed xs]
      by (simp add: pack_double_or_arma_def)
    from a b c show ?thesis by blast
  qed
  from packs xtol_abs_unsupported_type [of list s n pk] show ?thesis by blast
qed

theorem pack_double_or_arma_broadcast_witness:
  "pack_double_or_arma (make_packer [Mat \<lparr>n_rows = 2, n_cols = 2, mem = [0, 0, 0, 0]\<rparr>, Vec [0, 0]])
     0 [9, 9, 9, 9, 9, 9] (REALSXP [1 / 2] None) = Inr [1 / 2, 1 / 2, 1 / 2, 1 / 2, 9, 9] \<and>
   pack_double_or_arma (make_packer [Mat \<lparr>n_rows = 2, n_cols = 2, mem = [0, 0, 0, 0]\<rparr>, Vec [0, 0]])
     0 [9, 9, 9, 9, 9, 9] (REALSXP [1, 2, 3, 4] (Some (2, 2))) = Inr [1, 2, 3, 4, 9, 9] \<and>
   pack_double_or_arma (make_packer [Mat \<lparr>n_rows = 2, n_cols = 2, mem = [0, 0, 0, 0]\<rparr>, Vec [0, 0]])
     1 [9, 9, 9, 9, 9, 9] (REALSXP [1 / 2] None) = Inr [9, 9, 9, 9, 1 / 2, 1 / 2] \<and>
   pack_double_or_arma (make_packer [Mat \<lparr>n_rows = 2, n_cols = 2, mem = [0, 0, 0, 0]\<rparr>, Vec [0, 0]])
     1 [9, 9, 9, 9, 9, 9] (REALSXP [7, 8] None) = Inr [9, 9, 9, 9, 7, 8] \<and>
   from_r_list [(''xtol_abs'', STRSXP [''tight''])] 6
     (pack_xtol_abs (make_packer [Mat \<lparr>n_rows = 2, n_cols = 2, mem = [0, 0, 0, 0]\<rparr>, Vec [0, 0]])
        [''M'', ''S''])
     = Inl (Rcpp_exception
         ''unsupported config[xtol_abs] type: must be double or list of by-parameter values'')"
proof -
  let ?vs = "[Mat \<lparr>n_rows = 2, n_cols = 2, mem = [0, 0, 0, 0]\<rparr>, Vec [0, 0]]"
  let ?l = "[(''xtol_abs'', STRSXP [''tight''])]"
  let ?pk = "pack_xtol_abs (make_packer ?vs) [''M'', ''S'']"
  have els: "elements (make_packer ?vs) = [PackedInfo_mat 0 2 2, PackedInfo_vec 4 2]"
    and sz: "size_p (make_packer ?vs) = 6"
    by (simp_all add: make_packer_def)
  have rep: "replicate 4 x = [x, x, x, x]" for x :: real
    by (simp add: eval_nat_numeral)
  show ?thesis
    using
      pack_double_or_arma_broadcast [where i = 0 and vs = ?vs and packed = "[9, 9, 9, 9, 9, 9]"
        and x = "1 / 2" and d = None and off = 0 and r = 2 and c = 2 and xs = "[1, 2, 3, 4]"
        and list = ?l and s = "STRSXP [''tight'']" and n = 6 and pk = ?pk]
      pack_double_or_arma_broadcast [where i = 1 and vs = ?vs and packed = "[9, 9, 9, 9, 9, 9]"
        and x = "1 / 2" and d = None and off = 4 and sz = 2 and xs = "[7, 8]"
        and list = ?l and s = "STRSXP [''tight'']" and n = 6 and pk = ?pk]
    by (simp add: els sz n_elem_def rep)
qed

section \<open>Properties of the configuration and of the driver\<close>

lemma first_match_None:
  "name \<notin> fst ` set xs \<Longrightarrow> first_match name xs = None"
  by (induction xs) auto

lemma supported_message:
  "append_names (msg @ ''Supported:'') supported_algorithms =
     msg @ ''Supported: LBFGS_NOCEDAL LBFGS VAR1 VAR2 TNEWTON TNEWTON_RESTART TNEWTON_PRECOND TNEWTON_PRECOND_RESTART MMA CCSAQ''"
  by (simp add: supported_algorithms_def)

lemma algorithm_from_name_unsupported:
  assumes "name \<notin> fst ` set supported_algorithms"
  shows "algorithm_from_name name =
     Inl (Rcpp_exception (''Unsupported algorithm name: '' @ [CHR 0x22] @ name @ [CHR 0x22, CHR 0x0A]
        @ ''Supported: LBFGS_NOCEDAL LBFGS VAR1 VAR2 TNEWTON TNEWTON_RESTART TNEWTON_PRECOND TNEWTON_PRECOND_RESTART MMA CCSAQ''))"
  using first_match_None [OF assms]
    supported_message [of "''Unsupported algorithm name: '' @ [CHR 0x22] @ name @ [CHR 0x22, CHR 0x0A]"]
  by (simp add: algorithm_from_name_def)

lemma first_match_supported:
  "first_match ''LBFGS_NOCEDAL'' supported_algorithms = Some NLOPT_LD_LBFGS_NOCEDAL"
  "first_match ''LBFGS'' supported_algorithms = Some NLOPT_LD_LBFGS"
  "first_match ''VAR1'' supported_algorithms = Some NLOPT_LD_VAR1"
  "first_match ''VAR2'' supported_algorithms = Some NLOPT_LD_VAR2"
  "first_match ''TNEWTON'' supported_algorithms = Some NLOPT_LD_TNEWTON"
  "first_match ''TNEWTON_RESTART'' supported_algorithms = Some NLOPT_LD_TNEWTON_RESTART"
  "first_match ''TNEWTON_PRECOND'' supported_algorithms = Some NLOPT_LD_TNEWTON_PRECOND"
  "first_match ''TNEWTON_PRECOND_RESTART'' supported_algorithms = Some NLOPT_LD_TNEWTON_PRECOND_RESTART"
  "first_match ''MMA'' supported_algorithms = Some NLOPT_LD_MMA"
  "first_match ''CCSAQ'' supported_algorithms = Some NLOPT_LD_CCSAQ"
  by (simp_all add: supported_algorithms_def)

lemma algorithm_from_name_supported:
  assumes "(n, a) \<in> set supported_algorithms"
  shows "algorithm_from_name n = Inr a"
proof -
  from assms have "first_match n supported_algorithms = Some a"
    unfolding supported_algorithms_def set_simps insert_iff empty_iff prod.inject
    using first_match_supported [unfolded supported_algorithms_def]
    by (elim disjE conjE) simp_all
  then show ?thesis by (simp add: algorithm_from_name_def)
qed

lemma from_r_list_unsupported_algorithm:
  assumes "algorithm_from_name name = Inl e"
    and "map_of configuration ''algorithm'' = Some (STRSXP [name])"
  shows "\<exists>e'. from_r_list configuration packer_size pk = Inl e' \<and>
           (\<forall>xa. xtol_abs_from_r_list configuration packer_size pk = Inr xa \<longrightarrow> e' = e)"
proof (cases "xtol_abs_from_r_list configuration packer_size pk")
  case (Inl e')
  then show ?thesis by (simp add: from_r_list_def)
next
  case (Inr xa)
  with assms show ?thesis by (simp add: from_r_list_def Rcpp_list_get_def)
qed

text \<open>
  C6. A name outside the supported list makes \<open>algorithm_from_name\<close> fail with the
  exception whose message quotes the name and lists the ten supported names. When
  that name is the \<open>algorithm\<close> entry of the R list, \<open>from_r_list\<close> fails, with
  this very exception if the \<open>xtol_abs\<close> block before it succeeded, and the entry
  point ends there: nothing is created or evaluated and the parameters are as they
  were. Every name of the supported list resolves to its identifier.
\<close>

theorem algorithm_from_name_resolution:
  "(name \<notin> fst ` set supported_algorithms \<longrightarrow>
      algorithm_from_name name =
        Inl (Rcpp_exception (''Unsupported algorithm name: '' @ [CHR 0x22] @ name
          @ [CHR 0x22, CHR 0x0A]
          @ ''Supported: LBFGS_NOCEDAL LBFGS VAR1 VAR2 TNEWTON TNEWTON_RESTART TNEWTON_PRECOND TNEWTON_PRECOND_RESTART MMA CCSAQ'')) \<and>
      (map_of configuration ''algorithm'' = Some (STRSXP [name]) \<longrightarrow>
         (\<exists>e. from_r_list configuration packer_size pk = Inl e \<and>
              configure_then_minimize lib configuration packer_size pk parameters fn
                = (Inl e, parameters, []) \<and>
              (\<forall>xa. xtol_abs_from_r_list configuration packer_size pk = Inr xa \<longrightarrow>
                 e = Rcpp_exception (''Unsupported algorithm name: '' @ [CHR 0x22] @ name
                   @ [CHR 0x22, CHR 0x0A]
                   @ ''Supported: LBFGS_NOCEDAL LBFGS VAR1 VAR2 TNEWTON TNEWTON_RESTART TNEWTON_PRECOND TNEWTON_PRECOND_RESTART MMA CCSAQ''))))) \<and>
   ((supported_name, enum_value) \<in> set supported_algorithms \<longrightarrow>
      algorithm_from_name supported_name = Inr enum_value)"
proof -
  let ?e = "Rcpp_exception (''Unsupported algorithm name: '' @ [CHR 0x22] @ name
          @ [CHR 0x22, CHR 0x0A]
          @ ''Supported: LBFGS_NOCEDAL LBFGS VAR1 VAR2 TNEWTON TNEWTON_RESTART TNEWTON_PRECOND TNEWTON_PRECOND_RESTART MMA CCSAQ'')"
  have flow: "\<exists>e. from_r_list configuration packer_size pk = Inl e \<and>
              configure_then_minimize lib configuration packer_size pk parameters fn
                = (Inl e, parameters, []) \<and>
              (\<forall>xa. xtol_abs_from_r_list configuration packer_size pk = Inr xa \<longrightarrow> e = ?e)"
    if bad: "algorithm_from_name name = Inl ?e"
      and entry: "map_of configuration ''algorithm'' = Some (STRSXP [name])"
  proof -
    from from_r_list_unsupported_algorithm [OF bad entry, of packer_size pk]
    obtain e' where e': "from_r_list configuration packer_size pk = Inl e'"
      "\<forall>xa. xtol_abs_from_r_list configuration packer_size pk = Inr xa \<longrightarrow> e' = ?e"
      by blast
    from e'(1) have "configure_then_minimize lib configuration packer_size pk parameters fn
        = (Inl e', parameters, [])"
      by (simp add: configure_then_minimize_def)
    with e' show ?thesis by blast
  qed
  from flow algorithm_from_name_unsupported [of name]
    algorithm_from_name_supported [of supported_name enum_value]
  show ?thesis by blast
qed

theorem algorithm_from_name_resolution_witness:
  "algorithm_from_name ''SLSQP'' =
     Inl (Rcpp_exception (''Unsupported algorithm name: '' @ [CHR 0x22] @ ''SLSQP''
       @ [CHR 0x22, CHR 0x0A]
       @ ''Supported: LBFGS_NOCEDAL LBFGS VAR1 VAR2 TNEWTON TNEWTON_RESTART TNEWTON_PRECOND TNEWTON_PRECOND_RESTART MMA CCSAQ'')) \<and>
   configure_then_minimize (gradient_step_nlopt NLOPT_SUCCESS)
       [(''xtol_abs'', REALSXP [1 / 1000000] None), (''algorithm'', STRSXP [''SLSQP''])]
       1 (\<lambda>packed l. Inr packed) [42] f_and_grad =
     (Inl (Rcpp_exception (''Unsupported algorithm name: '' @ [CHR 0x22] @ ''SLSQP''
       @ [CHR 0x22, CHR 0x0A]
       @ ''Supported: LBFGS_NOCEDAL LBFGS VAR1 VAR2 TNEWTON TNEWTON_RESTART TNEWTON_PRECOND TNEWTON_PRECOND_RESTART MMA CCSAQ'')),
      [42], []) \<and>
   algorithm_from_name ''LBFGS'' = Inr NLOPT_LD_LBFGS"
proof -
  have a: "''SLSQP'' \<notin> fst ` set supported_algorithms"
    by (simp add: supported_algorithms_def)
  have b: "(''LBFGS'', NLOPT_LD_LBFGS) \<in> set supported_algorithms"
    by (simp add: supported_algorithms_def)
  have c: "xtol_abs_from_r_list
      [(''xtol_abs'', REALSXP [1 / 1000000] None), (''algorithm'', STRSXP [''SLSQP''])]
      1 (\<lambda>packed l. Inr packed) = Inr [1 / 1000000]"
    by (simp add: xtol_abs_from_r_list_def Rcpp_list_get_def)
  show ?thesis
    using algorithm_from_name_resolution [of "''SLSQP''"
        "[(''xtol_abs'', REALSXP [1 / 1000000] None), (''algorithm'', STRSXP [''SLSQP''])]"
        1 "\<lambda>packed l. Inr packed" "gradient_step_nlopt NLOPT_SUCCESS" "[42]" f_and_grad
        "''LBFGS''" NLOPT_LD_LBFGS] a b c
    by auto
qed

text \<open>
  C7. When the length of \<open>xtol_abs\<close> differs from the length of the parameters,
  \<open>minimize_objective_on_parameters\<close> throws the exception "config.xtol_abs size";
  the log is empty (no optimizer was created, the objective was not evaluated) and
  the parameter vector is the one passed in.
\<close>

theorem minimize_rejects_xtol_abs_size:
  "length (xtol_abs config) \<noteq> length parameters \<Longrightarrow>
   minimize_objective_on_parameters lib parameters config fn =
     (Inl (Rcpp_exception ''config.xtol_abs size''), parameters, [])"
  by (simp add: minimize_objective_on_parameters_def)

theorem minimize_rejects_xtol_abs_size_witness:
  "length (xtol_abs test_config) \<noteq> length [42, 43 :: real] \<and>
   minimize_objective_on_parameters (gradient_step_nlopt NLOPT_SUCCESS) [42, 43] test_config
       f_and_grad =
     (Inl (Rcpp_exception ''config.xtol_abs size''), [42, 43], [])"
proof -
  have a: "length (xtol_abs test_config) \<noteq> length [42, 43 :: real]"
    by (simp add: test_config_def)
  from a minimize_rejects_xtol_abs_size [OF a, of "gradient_step_nlopt NLOPT_SUCCESS" f_and_grad]
  show ?thesis by simp
qed

lemma nlopt_run_eq:
  "nlopt_run R d evs =
     (final_return R (optim_objective_and_grad_fn d),
      d\<lparr>optim_nb_iterations :=
          optim_nb_iterations d + of_nat (length (evaluations R (optim_objective_and_grad_fn d)))\<rparr>,
      evs @ map Objective_eval (evaluations R (optim_objective_and_grad_fn d)))"
proof (induction R arbitrary: d evs)
  case (Return st x opt_f)
  show ?case by simp
next
  case (Call x continue)
  show ?case
    using Call.IH [of "continue (optim_objective_and_grad_fn d x)"
        "d\<lparr>optim_nb_iterations := optim_nb_iterations d + 1\<rparr>" "evs @ [Objective_eval x]"]
    by (simp add: optim_fn_def add.assoc)
qed

lemma sint_of_nat_small:
  "n < 2 ^ 31 \<Longrightarrow> sint (of_nat n :: 32 word) = int n"
  by (simp add: signed_of_nat signed_take_bit_int_eq_self)

lemma configure_None:
  assumes "nlopt_set_xtol_abs lib (xtol_abs config) = NLOPT_SUCCESS"
    "nlopt_set_xtol_rel lib (xtol_rel config) = NLOPT_SUCCESS"
    "nlopt_set_ftol_abs lib (ftol_abs config) = NLOPT_SUCCESS"
    "nlopt_set_ftol_rel lib (ftol_rel config) = NLOPT_SUCCESS"
    "nlopt_set_maxeval lib (maxeval config) = NLOPT_SUCCESS"
    "nlopt_set_maxtime lib (maxtime config) = NLOPT_SUCCESS"
    "nlopt_set_min_objective lib = NLOPT_SUCCESS"
  shows "configure lib config = None"
  using assms by (simp add: configure_def check_def)

text \<open>
  C4. Once the optimizer is created and configured, whatever status \<open>st\<close> its run
  ends with (a success or not), \<open>minimize_objective_on_parameters\<close> throws nothing:
  it returns \<open>st\<close> in the result, the parameter vector is the final point \<open>x\<close> of
  the run, and the iteration count is the number of evaluations of the closure in the
  run, as a 32-bit integer (so equal to it below \<open>2\<^sup>3\<^sup>1\<close>). The log shows the
  evaluations between the creation and the destruction of the optimizer.
\<close>

theorem minimize_returns_status_as_data:
  assumes "length (xtol_abs config) = length parameters"
    and "nlopt_create lib (algorithm config) (length parameters)"
    and "nlopt_set_xtol_abs lib (xtol_abs config) = NLOPT_SUCCESS"
    and "nlopt_set_xtol_rel lib (xtol_rel config) = NLOPT_SUCCESS"
    and "nlopt_set_ftol_abs lib (ftol_abs config) = NLOPT_SUCCESS"
    and "nlopt_set_ftol_rel lib (ftol_rel config) = NLOPT_SUCCESS"
    and "nlopt_set_maxeval lib (maxeval config) = NLOPT_SUCCESS"
    and "nlopt_set_maxtime lib (maxtime config) = NLOPT_SUCCESS"
    and "nlopt_set_min_objective lib = NLOPT_SUCCESS"
    and "final_return (nlopt_optimize lib config parameters) fn = (st, x, opt_f)"
  shows "minimize_objective_on_parameters lib parameters config fn =
           (Inr \<lparr>status = st, objective = (case opt_f of None \<Rightarrow> 0 | Some f \<Rightarrow> f),
                 nb_iterations =
                   of_nat (length (evaluations (nlopt_optimize lib config parameters) fn))\<rparr>,
            x,
            Nlopt_create # map Objective_eval (evaluations (nlopt_optimize lib config parameters) fn)
              @ [Nlopt_destroy]) \<and>
         (length (evaluations (nlopt_optimize lib config parameters) fn) < 2 ^ 31 \<longrightarrow>
            sint (of_nat (length (evaluations (nlopt_optimize lib config parameters) fn)) :: 32 word)
              = int (length (evaluations (nlopt_optimize lib config parameters) fn)))"
proof -
  have c: "configure lib config = None"
    using assms(3-9) by (rule configure_None)
  have "minimize_objective_on_parameters lib parameters config fn =
           (Inr \<lparr>status = st, objective = (case opt_f of None \<Rightarrow> 0 | Some f \<Rightarrow> f),
                 nb_iterations =
                   of_nat (length (evaluations (nlopt_optimize lib config parameters) fn))\<rparr>,
            x,
            Nlopt_create # map Objective_eval (evaluations (nlopt_optimize lib config parameters) fn)
              @ [Nlopt_destroy])"
    using assms(1,2,10) c
    by (simp add: minimize_objective_on_parameters_def nlopt_run_eq)
  then show ?thesis using sint_of_nat_small by blast
qed

theorem minimize_returns_status_as_data_witness:
  "minimize_objective_on_parameters (gradient_step_nlopt NLOPT_MAXEVAL_REACHED) [42] test_config
       f_and_grad =
     (Inr \<lparr>status = NLOPT_MAXEVAL_REACHED, objective = 1764, nb_iterations = 2\<rparr>,
      [- 42],
      [Nlopt_create, Objective_eval [42], Objective_eval [- 42], Nlopt_destroy]) \<and>
   minimize_objective_on_parameters (gradient_step_nlopt NLOPT_FAILURE) [42] test_config
       f_and_grad =
     (Inr \<lparr>status = NLOPT_FAILURE, objective = 1764, nb_iterations = 2\<rparr>,
      [- 42],
      [Nlopt_create, Objective_eval [42], Objective_eval [- 42], Nlopt_destroy])"
proof -
  have ev: "evaluations (nlopt_optimize (gradient_step_nlopt st) test_config [42]) f_and_grad
      = [[42], [- 42]]" for st
    by (simp add: gradient_step_nlopt_def f_and_grad_def)
  have fr: "final_return (nlopt_optimize (gradient_step_nlopt st) test_config [42]) f_and_grad
      = (st, [- 42], Some 1764)" for st
    by (simp add: gradient_step_nlopt_def f_and_grad_def)
  have one: "minimize_objective_on_parameters (gradient_step_nlopt st) [42] test_config
       f_and_grad =
     (Inr \<lparr>status = st, objective = 1764, nb_iterations = 2\<rparr>,
      [- 42],
      [Nlopt_create, Objective_eval [42], Objective_eval [- 42], Nlopt_destroy])" for st
    using minimize_returns_status_as_data [of test_config "[42]" "gradient_step_nlopt st"
        f_and_grad st "[- 42]" "Some 1764", OF _ _ _ _ _ _ _ _ _ fr]
    by (simp add: ev) (simp add: gradient_step_nlopt_def test_config_def)
  from one [of NLOPT_MAXEVAL_REACHED] one [of NLOPT_FAILURE] show ?thesis by simp
qed

section \<open>Properties of matrix expressions\<close>

lemma bind_eq_Inr: "(bind m f = Inr y) = (\<exists>x. m = Inr x \<and> f x = Inr y)"
  by (cases m) simp_all

lemma mk_dims [simp]:
  "n_rows (mk r c f) = r" "n_cols (mk r c f) = c" "length (mem (mk r c f)) = r * c"
  by (simp_all add: mk_def)

lemma mk_ok [simp]: "mat_ok (mk r c f)"
  by (simp add: mat_ok_def)

lemma elem_mk: "i < r \<Longrightarrow> j < c \<Longrightarrow> elem (mk r c f) i j = f i j"
proof -
  assume i: "i < r" and j: "j < c"
  have "i + j * r < r * c"
  proof -
    have "i + j * r < r + j * r" using i by simp
    also have "\<dots> = (Suc j) * r" by simp
    also have "\<dots> \<le> c * r" using j by (intro mult_le_mono1) simp
    finally show ?thesis by (simp add: mult.commute)
  qed
  then show ?thesis using i by (simp add: elem_def mk_def)
qed

lemma mk_cong:
  "(\<And>i j. i < r \<Longrightarrow> j < c \<Longrightarrow> f i j = g i j) \<Longrightarrow> mk r c f = mk r c g"
proof -
  assume h: "\<And>i j. i < r \<Longrightarrow> j < c \<Longrightarrow> f i j = g i j"
  have "f (k mod r) (k div r) = g (k mod r) (k div r)" if "k < r * c" for k
  proof -
    from that have r: "0 < r" by (cases r) auto
    then have "k mod r < r" by simp
    moreover have "k div r < c" using that r by (simp add: less_mult_imp_div_less mult.commute)
    ultimately show ?thesis by (rule h)
  qed
  then show ?thesis by (simp add: mk_def)
qed

lemma eglue_Inr:
  "eglue f a b = Inr c \<Longrightarrow>
     \<exists>x y. a = Inr x \<and> b = Inr y \<and> n_rows x = n_rows y \<and> n_cols x = n_cols y \<and>
       c = mk (n_rows x) (n_cols x) (\<lambda>i j. f (elem x i j) (elem y i j))"
  by (auto simp: eglue_def bind_eq_Inr split: if_splits)

lemma eop_Inr:
  "eop f a = Inr c \<Longrightarrow> \<exists>x. a = Inr x \<and> c = x\<lparr>mem := map f (mem x)\<rparr>"
  by (auto simp: eop_def bind_eq_Inr)

lemma arma_mul_Inr:
  "arma_mul a b = Inr c \<Longrightarrow>
     \<exists>x y. a = Inr x \<and> b = Inr y \<and> n_cols x = n_rows y \<and>
       c = mk (n_rows x) (n_cols y)
             (\<lambda>i j. sum_list (map (\<lambda>k. elem x i k * elem y k j) [0..<n_cols x]))"
  by (auto simp: arma_mul_def bind_eq_Inr split: if_splits)

lemma arma_t_Inr:
  "arma_t a = Inr c \<Longrightarrow> \<exists>x. a = Inr x \<and> c = mk (n_cols x) (n_rows x) (\<lambda>i j. elem x j i)"
  by (auto simp: arma_t_def bind_eq_Inr)

lemma arma_each_col_Inr:
  "arma_each_col f a b = Inr c \<Longrightarrow>
     \<exists>x v. a = Inr x \<and> b = Inr v \<and> n_rows v = n_rows x \<and> n_cols v = 1 \<and>
       c = mk (n_rows x) (n_cols x) (\<lambda>i j. f (elem x i j) (elem v i 0))"
  by (auto simp: arma_each_col_def bind_eq_Inr split: if_splits)

lemma elem_colvec: "elem (colvec w) i 0 = w ! i"
  by (simp add: elem_def colvec_def)

lemma theta_gradient_value:
  assumes "arma_mul (arma_t (arma_sub (Inr A) (Inr Y))) (arma_each_col (*) (Inr X) (Inr (colvec w)))
             = Inr G"
  shows "G = mk (n_cols A) (n_cols X)
               (\<lambda>j k. sum_list (map (\<lambda>i. (elem A i j - elem Y i j) * (elem X i k * w ! i))
                                  [0..<n_rows A]))"
    and "n_rows Y = n_rows A" and "n_cols Y = n_cols A" and "n_rows X = n_rows A"
    and "length w = n_rows A"
proof -
  from arma_mul_Inr [OF assms] obtain D W where
    D: "arma_t (arma_sub (Inr A) (Inr Y)) = Inr D" and
    W: "arma_each_col (*) (Inr X) (Inr (colvec w)) = Inr W" and
    dim: "n_cols D = n_rows W" and
    G: "G = mk (n_rows D) (n_cols W)
             (\<lambda>i j. sum_list (map (\<lambda>k. elem D i k * elem W k j) [0..<n_cols D]))"
    by blast
  from arma_t_Inr [OF D] obtain E where
    E: "arma_sub (Inr A) (Inr Y) = Inr E" and DE: "D = mk (n_cols E) (n_rows E) (\<lambda>i j. elem E j i)"
    by blast
  from eglue_Inr [OF E] have
    AY: "n_rows A = n_rows Y" "n_cols A = n_cols Y" and
    EE: "E = mk (n_rows A) (n_cols A) (\<lambda>i j. elem A i j - elem Y i j)"
    by auto
  from arma_each_col_Inr [OF W] have
    wX: "n_rows (colvec w) = n_rows X" and
    WW: "W = mk (n_rows X) (n_cols X) (\<lambda>i j. elem X i j * elem (colvec w) i 0)"
    by auto
  from dim DE EE WW have nX: "n_rows X = n_rows A" by simp
  show "n_rows Y = n_rows A" "n_cols Y = n_cols A" "n_rows X = n_rows A"
    using AY nX by simp_all
  show "length w = n_rows A" using wX nX by (simp add: colvec_def)
  have "mk (n_rows D) (n_cols W)
             (\<lambda>i j. sum_list (map (\<lambda>k. elem D i k * elem W k j) [0..<n_cols D])) =
        mk (n_cols A) (n_cols X)
               (\<lambda>j k. sum_list (map (\<lambda>i. (elem A i j - elem Y i j) * (elem X i k * w ! i))
                                  [0..<n_rows A]))"
    unfolding DE EE WW mk_dims nX
    by (rule mk_cong, rule arg_cong [where f = sum_list], rule map_cong)
      (simp_all add: elem_mk elem_colvec)
  with G show "G = mk (n_cols A) (n_cols X)
               (\<lambda>j k. sum_list (map (\<lambda>i. (elem A i j - elem Y i j) * (elem X i k * w ! i))
                                  [0..<n_rows A]))"
    by simp
qed

section \<open>Packing one group leaves the others\<close>

lemma sum_list_take_mono:
  fixes f :: "'a \<Rightarrow> nat"
  shows "a \<le> b \<Longrightarrow> sum_list (map f (take a xs)) \<le> sum_list (map f (take b xs))"
proof -
  assume "a \<le> b"
  then have "take b xs = take a xs @ take (b - a) (drop a xs)"
    by (metis le_add_diff_inverse take_add)
  then show ?thesis by simp
qed

lemma sum_list_take_Suc:
  fixes f :: "'a \<Rightarrow> nat"
  shows "i < length xs \<Longrightarrow> sum_list (map f (take (Suc i) xs)) = sum_list (map f (take i xs)) + f (xs ! i)"
  by (simp add: take_Suc_conv_app_nth)

lemma make_packer_disjoint:
  assumes "i < j" "j < length vs"
  shows "offset (elements (make_packer vs) ! i) + info_size (elements (make_packer vs) ! i)
           \<le> offset (elements (make_packer vs) ! j)"
proof -
  from assms have i: "i < length vs" by simp
  have "offset (elements (make_packer vs) ! i) + info_size (elements (make_packer vs) ! i)
          = sum_list (map n_elem (take (Suc i) vs))"
    using make_elements_offset [OF i, of 0] make_elements_info_size [OF i, of 0]
      sum_list_take_Suc [OF i, of n_elem]
    by (simp add: elements_make_packer)
  also have "\<dots> \<le> sum_list (map n_elem (take j vs))"
    using assms(1) by (intro sum_list_take_mono) simp
  also have "\<dots> = offset (elements (make_packer vs) ! j)"
    using make_elements_offset [OF assms(2), of 0] by (simp add: elements_make_packer)
  finally show ?thesis .
qed

lemma make_elements_kind:
  "i < length vs \<Longrightarrow>
   \<exists>off. fst (make_elements vs k) ! i =
     (case vs ! i of
        Vec v \<Rightarrow> PackedInfo_vec off (length v)
      | Mat m \<Rightarrow> PackedInfo_mat off (n_rows m) (n_cols m))"
proof (induction vs arbitrary: k i)
  case Nil
  then show ?case by simp
next
  case (Cons v vs)
  show ?case
  proof (cases i)
    case 0
    then show ?thesis
      by (cases v) (simp_all add: make_elements_Cons del: make_elements.simps(2))
  next
    case (Suc j)
    with Cons.prems have j: "j < length vs" by simp
    show ?thesis
      using Cons.IH [OF j, of "snd (PackedInfo_new v k)"] Suc
      by (simp add: make_elements_Cons del: make_elements.simps(2))
  qed
qed

lemma make_packer_mat_info:
  assumes "i < length vs" "vs ! i = Mat T0"
  shows "\<exists>off. elements (make_packer vs) ! i = PackedInfo_mat off (n_rows T0) (n_cols T0)"
  using make_elements_kind [OF assms(1), of 0] assms(2) by (simp add: elements_make_packer)

lemma make_packer_vec_info:
  assumes "i < length vs" "vs ! i = Vec v"
  shows "\<exists>off. elements (make_packer vs) ! i = PackedInfo_vec off (length v)"
  using make_elements_kind [OF assms(1), of 0] assms(2) by (simp add: elements_make_packer)

lemma PackedInfo_pack_Inr:
  assumes "PackedInfo_pack info g a = Inr g'"
  shows "offset info + info_size info \<le> length g"
    and "length (vectorise a) = info_size info"
    and "g' = take (offset info) g @ vectorise a @ drop (offset info + info_size info) g"
  using assms
  by (cases info; cases a; simp add: subvec_assign_def vectorise_def split: if_splits)+

lemma PackedInfo_unpack_subvec:
  "subvec g (offset info) (info_size info) = subvec g' (offset info) (info_size info)
     \<Longrightarrow> PackedInfo_unpack info g = PackedInfo_unpack info g'"
  by (cases info) simp_all

lemma subvec_outside:
  assumes "off + sz \<le> length g" "length x = sz" "a + n \<le> off \<or> off + sz \<le> a"
  shows "subvec (take off g @ x @ drop (off + sz) g) a n = subvec g a n"
proof -
  have len: "length (take off g @ x @ drop (off + sz) g) = length g"
    using assms(1,2) by simp
  have "take n (drop a (take off g @ x @ drop (off + sz) g)) = take n (drop a g)"
    using assms(3)
  proof
    assume h: "a + n \<le> off"
    have "take n (drop a (take off g @ x @ drop (off + sz) g))
        = take n (drop a (take off g))"
      using h assms(1) by simp
    also have "\<dots> = take n (take (off - a) (drop a g))"
      by (simp add: drop_take)
    also have "\<dots> = take n (drop a g)"
      using h by (simp add: min_absorb1)
    finally show ?thesis .
  next
    assume h: "off + sz \<le> a"
    have "drop a (take off g @ x @ drop (off + sz) g) = drop (a - off - sz) (drop (off + sz) g)"
      using h assms(1,2) by simp
    also have "\<dots> = drop a g"
      using h by simp
    finally show ?thesis by simp
  qed
  then show ?thesis unfolding subvec_def len by simp
qed

lemma pack_frame:
  assumes "i < length vs" "j < length vs" "i \<noteq> j"
    and "pack (make_packer vs) j g a = Inr g'"
  shows "unpack (make_packer vs) i g' = unpack (make_packer vs) i g"
proof -
  let ?p = "make_packer vs"
  note P = PackedInfo_pack_Inr [OF assms(4) [unfolded pack_def]]
  have dis: "offset (elements ?p ! i) + info_size (elements ?p ! i) \<le> offset (elements ?p ! j)
      \<or> offset (elements ?p ! j) + info_size (elements ?p ! j) \<le> offset (elements ?p ! i)"
    using make_packer_disjoint [of i j vs] make_packer_disjoint [of j i vs] assms(1-3)
    by (cases "i < j") auto
  have "subvec g' (offset (elements ?p ! i)) (info_size (elements ?p ! i))
      = subvec g (offset (elements ?p ! i)) (info_size (elements ?p ! i))"
    unfolding P(3) using P(1,2) dis by (intro subvec_outside) auto
  then show ?thesis unfolding unpack_def by (intro PackedInfo_unpack_subvec) simp
qed

lemma pack_then_unpack_mat:
  assumes "i < length vs" "vs ! i = Mat T0"
    and "pack (make_packer vs) i g (Mat G) = Inr g'"
    and "n_rows G = n_rows T0" "n_cols G = n_cols T0" "mat_ok G"
  shows "unpack (make_packer vs) i g' = Inr (Mat G)"
proof -
  let ?info = "elements (make_packer vs) ! i"
  from make_packer_mat_info [OF assms(1,2)] obtain off where
    I: "?info = PackedInfo_mat off (n_rows T0) (n_cols T0)" by blast
  note P = PackedInfo_pack_Inr [OF assms(3) [unfolded pack_def]]
  have sz: "info_size ?info = n_rows T0 * n_cols T0" and off: "offset ?info = off"
    by (simp_all add: I)
  have "subvec g' off (n_rows T0 * n_cols T0) = Inr (mem G)"
    using P(1,2) unfolding P(3) sz off by (simp add: subvec_def vectorise_def)
  then have "PackedInfo_unpack ?info g' = Inr (Mat (reshape (mem G) (n_rows T0) (n_cols T0)))"
    by (simp add: I)
  moreover have "reshape (mem G) (n_rows T0) (n_cols T0) = G"
    using reshape_same [OF assms(6)] assms(4,5) by simp
  ultimately show ?thesis by (simp add: unpack_def)
qed

lemma unpack_mat_dims:
  assumes "i < length vs" "vs ! i = Mat T0"
    and "unpack_mat (make_packer vs) i g = Inr Theta"
  shows "n_rows Theta = n_rows T0" "n_cols Theta = n_cols T0" "mat_ok Theta"
proof -
  let ?info = "elements (make_packer vs) ! i"
  from make_packer_mat_info [OF assms(1,2)] obtain off where
    I: "?info = PackedInfo_mat off (n_rows T0) (n_cols T0)" by blast
  from assms(3) obtain v where v: "subvec g off (n_rows T0 * n_cols T0) = Inr v"
    and T: "Theta = reshape v (n_rows T0) (n_cols T0)"
    by (auto simp: unpack_mat_def unpack_def I bind_eq_Inr)
  from v have "length v = n_rows T0 * n_cols T0"
    by (auto simp: subvec_def split: if_splits)
  with T show "n_rows Theta = n_rows T0" "n_cols Theta = n_cols T0" "mat_ok Theta"
    by (simp_all add: reshape_def mat_ok_def)
qed

lemma pack_expr_Inr:
  "pack_expr p i g E = Inr g' \<Longrightarrow> \<exists>G. E = Inr G \<and> pack p i g (Mat G) = Inr g'"
  by (simp add: pack_expr_def bind_eq_Inr)

section \<open>The gradient block of the regression coefficients\<close>

lemma eglue_dims:
  assumes "eglue f a b = Inr c"
  shows "\<exists>x y. a = Inr x \<and> b = Inr y \<and> n_rows c = n_rows x \<and> n_cols c = n_cols x
           \<and> n_rows y = n_rows x \<and> n_cols y = n_cols x"
  using eglue_Inr [OF assms] by auto

lemma eop_dims:
  assumes "eop f a = Inr c"
  shows "\<exists>x. a = Inr x \<and> n_rows c = n_rows x \<and> n_cols c = n_cols x"
  using eop_Inr [OF assms] by auto

lemma linear_predictor_cols:
  assumes "arma_add (arma_add (Inr Offs) (arma_mul (Inr X) (arma_t (Inr Theta)))) E = Inr Z"
  shows "n_cols Z = n_rows Theta" "n_cols X = n_cols Theta"
proof -
  from eglue_Inr [OF assms] obtain U where
    U: "arma_add (Inr Offs) (arma_mul (Inr X) (arma_t (Inr Theta))) = Inr U"
    and ZU: "n_cols Z = n_cols U" by auto
  from eglue_Inr [OF U] obtain P where
    P: "arma_mul (Inr X) (arma_t (Inr Theta)) = Inr P"
    and UP: "n_cols U = n_cols P" by auto
  from arma_mul_Inr [OF P] have "n_cols P = n_rows Theta" "n_cols X = n_cols Theta"
    by (auto simp: arma_t_def)
  with ZU UP show "n_cols Z = n_rows Theta" "n_cols X = n_cols Theta" by simp_all
qed

lemma theta_block:
  assumes vs: "0 < length vs" "vs ! 0 = Mat T0"
    and Theta: "unpack_mat (make_packer vs) 0 parameters = Inr Theta"
    and dims: "n_cols A = n_rows Theta" "n_cols X = n_cols Theta"
    and p0: "pack_expr (make_packer vs) 0 gs
         (arma_mul (arma_t (arma_sub (Inr A) (Inr Y))) (arma_each_col (*) (Inr X) (Inr (colvec w))))
         = Inr g1"
  shows "unpack (make_packer vs) 0 g1 =
     Inr (Mat (mk (n_cols A) (n_cols X)
       (\<lambda>j k. sum_list (map (\<lambda>i. (elem A i j - elem Y i j) * (elem X i k * w ! i))
                          [0..<n_rows A]))))"
proof -
  from pack_expr_Inr [OF p0] obtain G where
    G: "arma_mul (arma_t (arma_sub (Inr A) (Inr Y))) (arma_each_col (*) (Inr X) (Inr (colvec w)))
          = Inr G"
    and pk: "pack (make_packer vs) 0 gs (Mat G) = Inr g1" by blast
  note GV = theta_gradient_value(1) [OF G]
  note TD = unpack_mat_dims [OF vs Theta]
  have "unpack (make_packer vs) 0 g1 = Inr (Mat G)"
    using TD dims by (intro pack_then_unpack_mat [OF vs pk]) (simp_all add: GV)
  then show ?thesis by (simp add: GV)
qed

lemma full_theta_gradient:
  assumes "full_closure inv_sympd log_det (make_packer [Mat T0, Mat M0, Mat S0]) Y X Offs w w_bar
             parameters gs = Inr (S2, Z, A, obj, g)"
  shows "unpack (make_packer [Mat T0, Mat M0, Mat S0]) 0 g =
     Inr (Mat (mk (n_cols A) (n_cols X)
       (\<lambda>j k. sum_list (map (\<lambda>i. (elem A i j - elem Y i j) * (elem X i k * w ! i))
                          [0..<n_rows A]))))"
proof -
  let ?vs = "[Mat T0, Mat M0, Mat S0]"
  let ?p = "make_packer ?vs"
  from assms obtain Theta M E g1 g2 E1 E2 where
    Theta: "unpack_mat ?p 0 parameters = Inr Theta"
    and Z: "arma_add (arma_add (Inr Offs) (arma_mul (Inr X) (arma_t (Inr Theta)))) (Inr M) = Inr Z"
    and A: "arma_exp (arma_add (Inr Z) E) = Inr A"
    and p0: "pack_expr ?p 0 gs
         (arma_mul (arma_t (arma_sub (Inr A) (Inr Y))) (arma_each_col (*) (Inr X) (Inr (colvec w))))
         = Inr g1"
    and p1: "pack_expr ?p 1 g1 E1 = Inr g2"
    and p2: "pack_expr ?p 2 g2 E2 = Inr g"
    unfolding full_closure_def bind_eq_Inr by auto
  from eop_dims [OF A] eglue_dims have "n_cols A = n_cols Z"
    by (metis Inr_inject)
  with linear_predictor_cols [OF Z] have dims: "n_cols A = n_rows Theta" "n_cols X = n_cols Theta"
    by simp_all
  from pack_expr_Inr [OF p1] obtain G1 where k1: "pack ?p 1 g1 (Mat G1) = Inr g2" by blast
  from pack_expr_Inr [OF p2] obtain G2 where k2: "pack ?p 2 g2 (Mat G2) = Inr g" by blast
  have "unpack ?p 0 g = unpack ?p 0 g2"
    by (rule pack_frame [OF _ _ _ k2]) simp_all
  also have "\<dots> = unpack ?p 0 g1"
    by (rule pack_frame [OF _ _ _ k1]) simp_all
  also have "\<dots> = Inr (Mat (mk (n_cols A) (n_cols X)
       (\<lambda>j k. sum_list (map (\<lambda>i. (elem A i j - elem Y i j) * (elem X i k * w ! i))
                          [0..<n_rows A]))))"
    by (rule theta_block [OF _ _ Theta dims p0]) simp_all
  finally show ?thesis .
qed

section \<open>The objective functions on one-by-one data\<close>

lemma mk_1x1: "mk (Suc 0) (Suc 0) f = one_by_one (f 0 0)"
  by (simp add: mk_def one_by_one_def)

lemma one_by_one_sel:
  "n_rows (one_by_one x) = Suc 0" "n_cols (one_by_one x) = Suc 0" "mem (one_by_one x) = [x]"
  "elem (one_by_one x) 0 0 = x"
  by (simp_all add: one_by_one_def elem_def)

lemma colvec_1: "colvec [x] = one_by_one x"
  by (simp add: colvec_def one_by_one_def)

lemma ops_1x1:
  "eglue f (Inr (one_by_one a)) (Inr (one_by_one b)) = Inr (one_by_one (f a b))"
  "eop g (Inr (one_by_one a)) = Inr (one_by_one (g a))"
  "arma_mul (Inr (one_by_one a)) (Inr (one_by_one b)) = Inr (one_by_one (a * b))"
  "arma_t (Inr (one_by_one a)) = Inr (one_by_one a)"
  "arma_each_col f (Inr (one_by_one a)) (Inr (one_by_one b)) = Inr (one_by_one (f a b))"
  "arma_each_row f (Inr (one_by_one a)) (Inr (one_by_one b)) = Inr (one_by_one (f a b))"
  "arma_diagmat (Inr (one_by_one a)) = Inr (one_by_one a)"
  "arma_diagvec (Inr (one_by_one a)) = Inr (one_by_one a)"
  "arma_sum (Inr (one_by_one a)) 0 = Inr (one_by_one a)"
  "arma_sum (Inr (one_by_one a)) (Suc 0) = Inr (one_by_one a)"
  "arma_accu (Inr (one_by_one a)) = Inr a"
  "arma_trace (Inr (one_by_one a)) = Inr a"
  "arma_dot (Inr (one_by_one a)) (Inr (one_by_one b)) = Inr (a * b)"
  "arma_as_scalar (Inr (one_by_one a)) = Inr a"
  "arma_at (one_by_one a) 0 0 = Inr a"
  by (simp_all add: eglue_def eop_def arma_mul_def arma_t_def arma_each_col_def
      arma_each_row_def arma_diagmat_def arma_diagvec_def arma_sum_def arma_accu_def
      arma_trace_def arma_dot_def arma_as_scalar_def arma_at_def mk_1x1 one_by_one_sel)

lemma partial_ops_1x1:
  "0 < a \<Longrightarrow> arma_log (Inr (one_by_one a)) = Inr (one_by_one (ln a))"
  "a \<noteq> 0 \<Longrightarrow> arma_pow (Inr (one_by_one a)) (- 1) = Inr (one_by_one (1 / a))"
  "arma_pow (Inr (one_by_one a)) 2 = Inr (one_by_one (a * a))"
  "a \<noteq> 0 \<Longrightarrow> arma_scalar_div s (Inr (one_by_one a)) = Inr (one_by_one (s / a))"
  "s \<noteq> 0 \<Longrightarrow> arma_div_scalar (Inr (one_by_one a)) s = Inr (one_by_one (a / s))"
  "b \<noteq> 0 \<Longrightarrow> arma_each_row_div (Inr (one_by_one a)) (Inr (one_by_one b)) = Inr (one_by_one (a / b))"
  "0 < a \<Longrightarrow> scalar_log a = Inr (ln a)"
  "s \<noteq> 0 \<Longrightarrow> scalar_div a s = Inr (a / s)"
  "0 < a \<Longrightarrow> inv_sympd_1x1 (one_by_one a) = Inr (one_by_one (1 / a))"
  "0 < a \<Longrightarrow> log_det_1x1 (one_by_one a) = Inr (ln a)"
  by (simp_all add: arma_log_def arma_pow_def arma_scalar_div_def arma_div_scalar_def
      arma_each_row_div_def scalar_log_def scalar_div_def inv_sympd_1x1_def log_det_1x1_def
      ops_1x1 one_by_one_sel)
    (simp_all add: one_by_one_def divide_inverse power2_eq_square)

lemma unpack3:
  "unpack_mat (make_packer [Mat (one_by_one a0), Mat (one_by_one b0), Mat (one_by_one c0)])
      0 [a, b, c] = Inr (one_by_one a)"
  "unpack_mat (make_packer [Mat (one_by_one a0), Mat (one_by_one b0), Mat (one_by_one c0)])
      (Suc 0) [a, b, c] = Inr (one_by_one b)"
  "unpack_mat (make_packer [Mat (one_by_one a0), Mat (one_by_one b0), Mat (one_by_one c0)])
      2 [a, b, c] = Inr (one_by_one c)"
  by (simp_all add: make_packer_def unpack_mat_def unpack_def subvec_def reshape_def one_by_one_def)

lemma pack3:
  "pack_expr (make_packer [Mat (one_by_one a0), Mat (one_by_one b0), Mat (one_by_one c0)])
      0 [a, b, c] (Inr (one_by_one x)) = Inr [x, b, c]"
  "pack_expr (make_packer [Mat (one_by_one a0), Mat (one_by_one b0), Mat (one_by_one c0)])
      (Suc 0) [a, b, c] (Inr (one_by_one x)) = Inr [a, x, c]"
  "pack_expr (make_packer [Mat (one_by_one a0), Mat (one_by_one b0), Mat (one_by_one c0)])
      2 [a, b, c] (Inr (one_by_one x)) = Inr [a, b, x]"
  by (simp_all add: make_packer_def pack_expr_def pack_def subvec_assign_def vectorise_def
      one_by_one_def)

lemma full_example:
  "full_closure inv_sympd_1x1 log_det_1x1
     (make_packer [Mat (one_by_one 0), Mat (one_by_one 0), Mat (one_by_one 0)])
     (one_by_one 1) (one_by_one 1) (one_by_one 0) [1] 1 [0, 0, 1] [0, 0, 0]
   = Inr (one_by_one 1, one_by_one 0, one_by_one (exp (1 / 2)), exp (1 / 2),
          [exp (1 / 2) - 1, exp (1 / 2) - 1, exp (1 / 2)])"
  by (simp add: full_closure_def unpack3 pack3 colvec_1 ops_1x1 partial_ops_1x1)

lemma unpack_mmv:
  "unpack_mat (make_packer [Mat (one_by_one a0), Mat (one_by_one b0), Vec [c0]])
      0 [a, b, c] = Inr (one_by_one a)"
  "unpack_mat (make_packer [Mat (one_by_one a0), Mat (one_by_one b0), Vec [c0]])
      (Suc 0) [a, b, c] = Inr (one_by_one b)"
  "unpack_mat (make_packer [Mat (one_by_one a0), Mat (one_by_one b0), Vec [c0]])
      2 [a, b, c] = Inr (one_by_one c)"
  by (simp_all add: make_packer_def unpack_mat_def unpack_def subvec_def reshape_def one_by_one_def
      colvec_def)

lemma pack_mmv:
  "pack_expr (make_packer [Mat (one_by_one a0), Mat (one_by_one b0), Vec [c0]])
      0 [a, b, c] (Inr (one_by_one x)) = Inr [x, b, c]"
  "pack_expr (make_packer [Mat (one_by_one a0), Mat (one_by_one b0), Vec [c0]])
      (Suc 0) [a, b, c] (Inr (one_by_one x)) = Inr [a, x, c]"
  "pack_expr (make_packer [Mat (one_by_one a0), Mat (one_by_one b0), Vec [c0]])
      2 [a, b, c] (Inr (one_by_one x)) = Inr [a, b, x]"
  by (simp_all add: make_packer_def pack_expr_def pack_def subvec_assign_def vectorise_def
      one_by_one_def)

lemma unpack4:
  "unpack_mat (make_packer [Mat (one_by_one a0), Mat (one_by_one b0), Mat (one_by_one c0),
      Mat (one_by_one d0)]) 0 [a, b, c, d] = Inr (one_by_one a)"
  "unpack_mat (make_packer [Mat (one_by_one a0), Mat (one_by_one b0), Mat (one_by_one c0),
      Mat (one_by_one d0)]) (Suc 0) [a, b, c, d] = Inr (one_by_one b)"
  "unpack_mat (make_packer [Mat (one_by_one a0), Mat (one_by_one b0), Mat (one_by_one c0),
      Mat (one_by_one d0)]) 2 [a, b, c, d] = Inr (one_by_one c)"
  "unpack_mat (make_packer [Mat (one_by_one a0), Mat (one_by_one b0), Mat (one_by_one c0),
      Mat (one_by_one d0)]) 3 [a, b, c, d] = Inr (one_by_one d)"
  by (simp_all add: make_packer_def unpack_mat_def unpack_def subvec_def reshape_def one_by_one_def)

lemma pack4:
  "pack_expr (make_packer [Mat (one_by_one a0), Mat (one_by_one b0), Mat (one_by_one c0),
      Mat (one_by_one d0)]) 0 [a, b, c, d] (Inr (one_by_one x)) = Inr [x, b, c, d]"
  "pack_expr (make_packer [Mat (one_by_one a0), Mat (one_by_one b0), Mat (one_by_one c0),
      Mat (one_by_one d0)]) (Suc 0) [a, b, c, d] (Inr (one_by_one x)) = Inr [a, x, c, d]"
  "pack_expr (make_packer [Mat (one_by_one a0), Mat (one_by_one b0), Mat (one_by_one c0),
      Mat (one_by_one d0)]) 2 [a, b, c, d] (Inr (one_by_one x)) = Inr [a, b, x, d]"
  "pack_expr (make_packer [Mat (one_by_one a0), Mat (one_by_one b0), Mat (one_by_one c0),
      Mat (one_by_one d0)]) 3 [a, b, c, d] (Inr (one_by_one x)) = Inr [a, b, c, x]"
  by (simp_all add: make_packer_def pack_expr_def pack_def subvec_assign_def vectorise_def
      one_by_one_def)

lemma unpack2:
  "unpack_mat (make_packer [Mat (one_by_one a0), Mat (one_by_one b0)]) 0 [a, b]
     = Inr (one_by_one a)"
  "unpack_mat (make_packer [Mat (one_by_one a0), Mat (one_by_one b0)]) (Suc 0) [a, b]
     = Inr (one_by_one b)"
  "unpack_mat (make_packer [Mat (one_by_one a0), Vec [b0]]) 0 [a, b] = Inr (one_by_one a)"
  "unpack_mat (make_packer [Mat (one_by_one a0), Vec [b0]]) (Suc 0) [a, b] = Inr (one_by_one b)"
  by (simp_all add: make_packer_def unpack_mat_def unpack_def subvec_def reshape_def one_by_one_def
      colvec_def)

lemma pack2:
  "pack_expr (make_packer [Mat (one_by_one a0), Mat (one_by_one b0)]) 0 [a, b]
     (Inr (one_by_one x)) = Inr [x, b]"
  "pack_expr (make_packer [Mat (one_by_one a0), Mat (one_by_one b0)]) (Suc 0) [a, b]
     (Inr (one_by_one x)) = Inr [a, x]"
  "pack_expr (make_packer [Mat (one_by_one a0), Vec [b0]]) 0 [a, b]
     (Inr (one_by_one x)) = Inr [x, b]"
  "pack_expr (make_packer [Mat (one_by_one a0), Vec [b0]]) (Suc 0) [a, b]
     (Inr (one_by_one x)) = Inr [a, x]"
  by (simp_all add: make_packer_def pack_expr_def pack_def subvec_assign_def vectorise_def
      one_by_one_def)

lemmas eval_1x1 = unpack3 pack3 unpack_mmv pack_mmv unpack4 pack4 unpack2 pack2 colvec_1
  ops_1x1 partial_ops_1x1 one_by_one_sel

lemma spherical_example:
  "spherical_closure (make_packer [Mat (one_by_one 0), Mat (one_by_one 0), Vec [0]])
     (one_by_one 1) (one_by_one 1) (one_by_one 0) [1] 1 [0, 0, 1] [0, 0, 0]
   = Inr (one_by_one 1, one_by_one 0, one_by_one (exp (1 / 2)), exp (1 / 2),
          [exp (1 / 2) - 1, exp (1 / 2) - 1, exp (1 / 2) - 2])"
  by (simp add: spherical_closure_def eval_1x1)

lemma diagonal_example:
  "diagonal_closure (make_packer [Mat (one_by_one 0), Mat (one_by_one 0), Mat (one_by_one 0)])
     (one_by_one 1) (one_by_one 1) (one_by_one 0) [1] 1 [0, 0, 1] [0, 0, 0]
   = Inr (one_by_one 1, one_by_one 0, one_by_one (exp (1 / 2)), exp (1 / 2),
          [exp (1 / 2) - 1, exp (1 / 2) - 1, exp (1 / 2)])"
  by (simp add: diagonal_closure_def eval_1x1)

lemma rank_example:
  "rank_closure (make_packer [Mat (one_by_one 0), Mat (one_by_one 0), Mat (one_by_one 0),
       Mat (one_by_one 0)])
     (one_by_one 1) (one_by_one 1) (one_by_one 0) [1] [0, 1, 0, 1] [0, 0, 0, 0]
   = Inr (one_by_one 1, one_by_one 0, one_by_one (exp (1 / 2)), exp (1 / 2),
          [exp (1 / 2) - 1, exp (1 / 2), exp (1 / 2) - 1, exp (1 / 2)])"
  by (simp add: rank_closure_def eval_1x1)

lemma sparse_example:
  "sparse_closure (make_packer [Mat (one_by_one 0), Mat (one_by_one 0), Mat (one_by_one 0)])
     (one_by_one 1) (one_by_one 1) (one_by_one 0) [1] (one_by_one 1) [0, 0, 1] [0, 0, 0]
   = Inr (one_by_one 1, one_by_one 0, one_by_one (exp (1 / 2)), exp (1 / 2) - 1,
          [exp (1 / 2) - 1, exp (1 / 2) - 1, exp (1 / 2)])"
  by (simp add: sparse_closure_def eval_1x1)

lemma vestep_full_example:
  "vestep_full_closure (make_packer [Mat (one_by_one 0), Mat (one_by_one 0)])
     (one_by_one 1) (one_by_one 1) (one_by_one 0) [1] (one_by_one 0) (one_by_one 1) [0, 1] [0, 0]
   = Inr (one_by_one 1, one_by_one 0, one_by_one (exp (1 / 2)), exp (1 / 2) + 1 / 2,
          [exp (1 / 2) - 1, exp (1 / 2)])"
  by (simp add: vestep_full_closure_def eval_1x1)

lemma vestep_diagonal_example:
  "vestep_diagonal_closure (make_packer [Mat (one_by_one 0), Mat (one_by_one 0)])
     (one_by_one 1) (one_by_one 1) (one_by_one 0) [1] (one_by_one 0) (one_by_one 1) [0, 1] [0, 0]
   = Inr (one_by_one 1, one_by_one 0, one_by_one (exp (1 / 2)), exp (1 / 2) + 1 / 2,
          [exp (1 / 2) - 1, exp (1 / 2)])"
  by (simp add: vestep_diagonal_closure_def eval_1x1)

lemma vestep_spherical_example:
  "vestep_spherical_closure (make_packer [Mat (one_by_one 0), Vec [0]])
     (one_by_one 1) (one_by_one 1) (one_by_one 0) [1] (one_by_one 0) (one_by_one 1) [0, 1] [0, 0]
   = Inr (one_by_one 1, one_by_one 0, one_by_one (exp (1 / 2)), exp (1 / 2) + 1 / 2,
          [exp (1 / 2) - 1, exp (1 / 2) - 2])"
  by (simp add: vestep_spherical_closure_def eval_1x1)

lemma sparse_mean_example:
  "\<exists>obj g. sparse_closure (make_packer [Mat (one_by_one 0), Mat (one_by_one 0), Mat (one_by_one 0)])
     (one_by_one 1) (one_by_one 1) (one_by_one 0) [1] (one_by_one 1) [0, 0, 2] [0, 0, 0]
   = Inr (one_by_one 4, one_by_one 0, one_by_one (exp 1), obj, g)"
  by (simp add: sparse_closure_def eval_1x1)

lemma ops_Inl:
  "eop h (Inl e) = Inl e"
  "eglue f (Inl e) b = Inl e"
  "eglue f (Inr x) (Inl e) = Inl e"
  "arma_mul (Inl e) b = Inl e"
  "arma_mul (Inr x) (Inl e) = Inl e"
  "arma_accu (Inl e) = Inl e"
  "pack_expr p i g (Inl e) = Inl e"
  by (simp_all add: eop_def eglue_def arma_mul_def arma_accu_def pack_expr_def)

lemma full_nonfinite_example:
  "full_closure inv_sympd_1x1 log_det_1x1
     (make_packer [Mat (one_by_one 0), Mat (one_by_one 0), Mat (one_by_one 0)])
     (one_by_one 1) (one_by_one 1) (one_by_one 0) [1] 1 [0, 1, 0] [0, 0, 0]
   = Inl Non_finite"
  by (simp add: full_closure_def eval_1x1 arma_log_def ops_Inl)

section \<open>Zero entries of the scale parameter\<close>

lemma isl_ops:
  "isl a \<Longrightarrow> isl (eglue f a b)"
  "isl b \<Longrightarrow> isl (eglue f a b)"
  "isl a \<Longrightarrow> isl (eop h a)"
  "isl a \<Longrightarrow> isl (arma_mul a b)"
  "isl b \<Longrightarrow> isl (arma_mul a b)"
  by (cases a; cases b; simp add: eglue_def eop_def arma_mul_def)+

lemma pack_expr_not_isl: "pack_expr p i g E = Inr g' \<Longrightarrow> \<not> isl E"
  by (cases E) (simp_all add: pack_expr_def)

lemma arma_pow_zero_entry:
  "\<not> (\<forall>v\<in>set (mem S). v \<noteq> 0) \<Longrightarrow> isl (arma_pow (Inr S) (- 1))"
  by (simp add: arma_pow_def list_all_iff)

lemma arma_scalar_div_zero_entry:
  "\<not> (\<forall>v\<in>set (mem S). v \<noteq> 0) \<Longrightarrow> isl (arma_scalar_div s (Inr S))"
  by (simp add: arma_scalar_div_def list_all_iff)

lemma full_needs_nonzero_S:
  assumes "full_closure inv_sympd log_det p Y X Offs w w_bar parameters gs = Inr r"
    and "unpack_mat p 2 parameters = Inr S"
  shows "\<forall>v\<in>set (mem S). v \<noteq> 0"
proof (rule ccontr)
  assume "\<not> (\<forall>v\<in>set (mem S). v \<noteq> 0)"
  then have z: "isl (arma_pow (Inr S) (- 1))" by (rule arma_pow_zero_entry)
  from assms obtain g2 g3 D E where
    "pack_expr p 2 g2 (arma_mul D (arma_sub E (arma_pow (Inr S) (- 1)))) = Inr g3"
    unfolding full_closure_def bind_eq_Inr by auto
  then have "\<not> isl (arma_mul D (arma_sub E (arma_pow (Inr S) (- 1))))"
    by (rule pack_expr_not_isl)
  with z show False by (blast intro: isl_ops)
qed

lemma spherical_needs_nonzero_S:
  assumes "spherical_closure p Y X Offs w w_bar parameters gs = Inr r"
    and "unpack_mat p 2 parameters = Inr S"
  shows "\<forall>v\<in>set (mem S). v \<noteq> 0"
proof (rule ccontr)
  assume "\<not> (\<forall>v\<in>set (mem S). v \<noteq> 0)"
  then have z: "isl (arma_pow (Inr S) (- 1))" by (rule arma_pow_zero_entry)
  from assms obtain g2 g3 D E F c where
    "pack_expr p 2 g2
       (arma_schur D (arma_sub (arma_sub E (arma_scale c (arma_pow (Inr S) (- 1)))) F)) = Inr g3"
    unfolding spherical_closure_def bind_eq_Inr Let_def by auto
  then have "\<not> isl (arma_schur D (arma_sub (arma_sub E (arma_scale c (arma_pow (Inr S) (- 1)))) F))"
    by (rule pack_expr_not_isl)
  with z show False by (blast intro: isl_ops)
qed

lemma rank_needs_nonzero_S:
  assumes "rank_closure p Y X Offs w parameters gs = Inr r"
    and "unpack_mat p 3 parameters = Inr S"
  shows "\<forall>v\<in>set (mem S). v \<noteq> 0"
proof (rule ccontr)
  assume "\<not> (\<forall>v\<in>set (mem S). v \<noteq> 0)"
  then have z: "isl (arma_scalar_div 1 (Inr S))" by (rule arma_scalar_div_zero_entry)
  from assms obtain g3 g4 D E where
    "pack_expr p 3 g3
       (arma_mul D (arma_add (arma_sub (Inr S) (arma_scalar_div 1 (Inr S))) E)) = Inr g4"
    unfolding rank_closure_def bind_eq_Inr by auto
  then have "\<not> isl (arma_mul D (arma_add (arma_sub (Inr S) (arma_scalar_div 1 (Inr S))) E))"
    by (rule pack_expr_not_isl)
  with z show False by (blast intro: isl_ops)
qed

lemma diagonal_needs_nonzero_S:
  assumes "diagonal_closure p Y X Offs w w_bar parameters gs = Inr r"
    and "unpack_mat p 2 parameters = Inr S"
  shows "\<forall>v\<in>set (mem S). v \<noteq> 0"
proof (rule ccontr)
  assume "\<not> (\<forall>v\<in>set (mem S). v \<noteq> 0)"
  then have z: "isl (arma_pow (Inr S) (- 1))" by (rule arma_pow_zero_entry)
  from assms obtain ga gb D E where
    "pack_expr p 2 ga (arma_mul D (arma_sub E (arma_pow (Inr S) (- 1)))) = Inr gb"
    unfolding diagonal_closure_def bind_eq_Inr by auto
  then have "\<not> isl (arma_mul D (arma_sub E (arma_pow (Inr S) (- 1))))"
    by (rule pack_expr_not_isl)
  with z show False by (blast intro: isl_ops)
qed

lemma sparse_needs_nonzero_S:
  assumes "sparse_closure p Y X Offs w Omega parameters gs = Inr r"
    and "unpack_mat p 2 parameters = Inr S"
  shows "\<forall>v\<in>set (mem S). v \<noteq> 0"
proof (rule ccontr)
  assume "\<not> (\<forall>v\<in>set (mem S). v \<noteq> 0)"
  then have z: "isl (arma_pow (Inr S) (- 1))" by (rule arma_pow_zero_entry)
  from assms obtain ga gb D E where
    "pack_expr p 2 ga (arma_mul D (arma_sub E (arma_pow (Inr S) (- 1)))) = Inr gb"
    unfolding sparse_closure_def bind_eq_Inr by auto
  then have "\<not> isl (arma_mul D (arma_sub E (arma_pow (Inr S) (- 1))))"
    by (rule pack_expr_not_isl)
  with z show False by (blast intro: isl_ops)
qed

lemma vestep_full_needs_nonzero_S:
  assumes "vestep_full_closure p Y X Offs w Theta Omega parameters gs = Inr r"
    and "unpack_mat p 1 parameters = Inr S"
  shows "\<forall>v\<in>set (mem S). v \<noteq> 0"
proof (rule ccontr)
  assume "\<not> (\<forall>v\<in>set (mem S). v \<noteq> 0)"
  then have z: "isl (arma_pow (Inr S) (- 1))" by (rule arma_pow_zero_entry)
  from assms obtain ga gb D E where
    "pack_expr p 1 ga (arma_mul D (arma_sub E (arma_pow (Inr S) (- 1)))) = Inr gb"
    unfolding vestep_full_closure_def bind_eq_Inr by auto
  then have "\<not> isl (arma_mul D (arma_sub E (arma_pow (Inr S) (- 1))))"
    by (rule pack_expr_not_isl)
  with z show False by (blast intro: isl_ops)
qed

lemma vestep_diagonal_needs_nonzero_S:
  assumes "vestep_diagonal_closure p Y X Offs w Theta Omega parameters gs = Inr r"
    and "unpack_mat p 1 parameters = Inr S"
  shows "\<forall>v\<in>set (mem S). v \<noteq> 0"
proof (rule ccontr)
  assume "\<not> (\<forall>v\<in>set (mem S). v \<noteq> 0)"
  then have z: "isl (arma_pow (Inr S) (- 1))" by (rule arma_pow_zero_entry)
  from assms obtain ga gb D E where
    "pack_expr p 1 ga (arma_mul D (arma_sub E (arma_pow (Inr S) (- 1)))) = Inr gb"
    unfolding vestep_diagonal_closure_def bind_eq_Inr by auto
  then have "\<not> isl (arma_mul D (arma_sub E (arma_pow (Inr S) (- 1))))"
    by (rule pack_expr_not_isl)
  with z show False by (blast intro: isl_ops)
qed

lemma vestep_spherical_needs_nonzero_S:
  assumes "vestep_spherical_closure p Y X Offs w Theta Omega parameters gs = Inr r"
    and "unpack_mat p 1 parameters = Inr S"
  shows "\<forall>v\<in>set (mem S). v \<noteq> 0"
proof (rule ccontr)
  assume "\<not> (\<forall>v\<in>set (mem S). v \<noteq> 0)"
  then have z: "isl (arma_pow (Inr S) (- 1))" by (rule arma_pow_zero_entry)
  from assms obtain ga gb D E F c where
    "pack_expr p 1 ga (arma_schur D (arma_sub (arma_sub E (arma_scale c (arma_pow (Inr S) (- 1)))) F)) = Inr gb"
    unfolding vestep_spherical_closure_def bind_eq_Inr by auto
  then have "\<not> isl (arma_schur D (arma_sub (arma_sub E (arma_scale c (arma_pow (Inr S) (- 1)))) F))"
    by (rule pack_expr_not_isl)
  with z show False by (blast intro: isl_ops)
qed


section \<open>The gradient block in the other variants\<close>

lemma spherical_theta_gradient:
  assumes "spherical_closure (make_packer [Mat T0, Mat M0, Vec S0]) Y X Offs w w_bar
             parameters gs = Inr (S2, Z, A, obj, g)"
  shows "unpack (make_packer [Mat T0, Mat M0, Vec S0]) 0 g =
     Inr (Mat (mk (n_cols A) (n_cols X)
       (\<lambda>j k. sum_list (map (\<lambda>i. (elem A i j - elem Y i j) * (elem X i k * w ! i))
                          [0..<n_rows A]))))"
proof -
  let ?vs = "[Mat T0, Mat M0, Vec S0]"
  let ?p = "make_packer ?vs"
  from assms obtain Theta Zr E g1 E1 g2 E2 where
    Theta: "unpack_mat ?p 0 parameters = Inr Theta"
    and Z: "arma_add (arma_add (Inr Offs) (arma_mul (Inr X) (arma_t (Inr Theta)))) Zr = Inr Z"
    and A: "arma_exp (arma_each_col (+) (Inr Z) E) = Inr A"
    and p0: "pack_expr ?p 0 gs
         (arma_mul (arma_t (arma_sub (Inr A) (Inr Y))) (arma_each_col (*) (Inr X) (Inr (colvec w))))
         = Inr g1"
    and p1: "pack_expr ?p 1 g1 E1 = Inr g2"
    and p2: "pack_expr ?p 2 g2 E2 = Inr g"
    unfolding spherical_closure_def bind_eq_Inr Let_def by auto
  from A have "n_cols A = n_cols Z"
    by (auto simp: eop_def eglue_def arma_each_col_def bind_eq_Inr split: if_splits)
  with linear_predictor_cols [OF Z] have dims: "n_cols A = n_rows Theta" "n_cols X = n_cols Theta"
    by simp_all
  from pack_expr_Inr [OF p2] obtain G2 where k2: "pack ?p 2 g2 (Mat G2) = Inr g" by blast
  from pack_expr_Inr [OF p1] obtain G1 where k1: "pack ?p 1 g1 (Mat G1) = Inr g2" by blast
  have "unpack ?p 0 g = unpack ?p 0 g2"
    by (rule pack_frame [OF _ _ _ k2]) simp_all
  also have "\<dots> = unpack ?p 0 g1"
    by (rule pack_frame [OF _ _ _ k1]) simp_all
  also have "\<dots> = Inr (Mat (mk (n_cols A) (n_cols X)
       (\<lambda>j k. sum_list (map (\<lambda>i. (elem A i j - elem Y i j) * (elem X i k * w ! i))
                          [0..<n_rows A]))))"
    by (rule theta_block [OF _ _ Theta dims p0]) simp_all
  finally show ?thesis .
qed

lemma diagonal_theta_gradient:
  assumes "diagonal_closure (make_packer [Mat T0, Mat M0, Mat S0]) Y X Offs w w_bar
             parameters gs = Inr (S2, Z, A, obj, g)"
  shows "unpack (make_packer [Mat T0, Mat M0, Mat S0]) 0 g =
     Inr (Mat (mk (n_cols A) (n_cols X)
       (\<lambda>j k. sum_list (map (\<lambda>i. (elem A i j - elem Y i j) * (elem X i k * w ! i))
                          [0..<n_rows A]))))"
proof -
  let ?vs = "[Mat T0, Mat M0, Mat S0]"
  let ?p = "make_packer ?vs"
  from assms obtain Theta Zr E g1 E1 g2 E2 where
    Theta: "unpack_mat ?p 0 parameters = Inr Theta"
    and Z: "arma_add (arma_add (Inr Offs) (arma_mul (Inr X) (arma_t (Inr Theta)))) Zr = Inr Z"
    and A: "arma_exp (arma_add (Inr Z) E) = Inr A"
    and p0: "pack_expr ?p 0 gs
         (arma_mul (arma_t (arma_sub (Inr A) (Inr Y))) (arma_each_col (*) (Inr X) (Inr (colvec w))))
         = Inr g1"
    and p1: "pack_expr ?p 1 g1 E1 = Inr g2"
    and p2: "pack_expr ?p 2 g2 E2 = Inr g"
    unfolding diagonal_closure_def bind_eq_Inr by auto
  from A have "n_cols A = n_cols Z"
    by (auto simp: eop_def eglue_def arma_each_col_def bind_eq_Inr split: if_splits)
  with linear_predictor_cols [OF Z] have dims: "n_cols A = n_rows Theta" "n_cols X = n_cols Theta"
    by simp_all
  from pack_expr_Inr [OF p2] obtain G2 where k2: "pack ?p 2 g2 (Mat G2) = Inr g" by blast
  from pack_expr_Inr [OF p1] obtain G1 where k1: "pack ?p 1 g1 (Mat G1) = Inr g2" by blast
  have "unpack ?p 0 g = unpack ?p 0 g2"
    by (rule pack_frame [OF _ _ _ k2]) simp_all
  also have "\<dots> = unpack ?p 0 g1"
    by (rule pack_frame [OF _ _ _ k1]) simp_all
  also have "\<dots> = Inr (Mat (mk (n_cols A) (n_cols X)
       (\<lambda>j k. sum_list (map (\<lambda>i. (elem A i j - elem Y i j) * (elem X i k * w ! i))
                          [0..<n_rows A]))))"
    by (rule theta_block [OF _ _ Theta dims p0]) simp_all
  finally show ?thesis .
qed

lemma rank_theta_gradient:
  assumes "rank_closure (make_packer [Mat T0, Mat B0, Mat M0, Mat S0]) Y X Offs w
             parameters gs = Inr (S2, Z, A, obj, g)"
  shows "unpack (make_packer [Mat T0, Mat B0, Mat M0, Mat S0]) 0 g =
     Inr (Mat (mk (n_cols A) (n_cols X)
       (\<lambda>j k. sum_list (map (\<lambda>i. (elem A i j - elem Y i j) * (elem X i k * w ! i))
                          [0..<n_rows A]))))"
proof -
  let ?vs = "[Mat T0, Mat B0, Mat M0, Mat S0]"
  let ?p = "make_packer ?vs"
  from assms obtain Theta Zr E g1 E1 g2 E2 g3 E3 where
    Theta: "unpack_mat ?p 0 parameters = Inr Theta"
    and Z: "arma_add (arma_add (Inr Offs) (arma_mul (Inr X) (arma_t (Inr Theta)))) Zr = Inr Z"
    and A: "arma_exp (arma_add (Inr Z) E) = Inr A"
    and p0: "pack_expr ?p 0 gs
         (arma_mul (arma_t (arma_sub (Inr A) (Inr Y))) (arma_each_col (*) (Inr X) (Inr (colvec w))))
         = Inr g1"
    and p1: "pack_expr ?p 1 g1 E1 = Inr g2"
    and p2: "pack_expr ?p 2 g2 E2 = Inr g3"
    and p3: "pack_expr ?p 3 g3 E3 = Inr g"
    unfolding rank_closure_def bind_eq_Inr by auto
  from A have "n_cols A = n_cols Z"
    by (auto simp: eop_def eglue_def arma_each_col_def bind_eq_Inr split: if_splits)
  with linear_predictor_cols [OF Z] have dims: "n_cols A = n_rows Theta" "n_cols X = n_cols Theta"
    by simp_all
  from pack_expr_Inr [OF p3] obtain G3 where k3: "pack ?p 3 g3 (Mat G3) = Inr g" by blast
  from pack_expr_Inr [OF p2] obtain G2 where k2: "pack ?p 2 g2 (Mat G2) = Inr g3" by blast
  from pack_expr_Inr [OF p1] obtain G1 where k1: "pack ?p 1 g1 (Mat G1) = Inr g2" by blast
  have "unpack ?p 0 g = unpack ?p 0 g3"
    by (rule pack_frame [OF _ _ _ k3]) simp_all
  also have "\<dots> = unpack ?p 0 g2"
    by (rule pack_frame [OF _ _ _ k2]) simp_all
  also have "\<dots> = unpack ?p 0 g1"
    by (rule pack_frame [OF _ _ _ k1]) simp_all
  also have "\<dots> = Inr (Mat (mk (n_cols A) (n_cols X)
       (\<lambda>j k. sum_list (map (\<lambda>i. (elem A i j - elem Y i j) * (elem X i k * w ! i))
                          [0..<n_rows A]))))"
    by (rule theta_block [OF _ _ Theta dims p0]) simp_all
  finally show ?thesis .
qed

lemma sparse_theta_gradient:
  assumes "sparse_closure (make_packer [Mat T0, Mat M0, Mat S0]) Y X Offs w Omega
             parameters gs = Inr (S2, Z, A, obj, g)"
  shows "unpack (make_packer [Mat T0, Mat M0, Mat S0]) 0 g =
     Inr (Mat (mk (n_cols A) (n_cols X)
       (\<lambda>j k. sum_list (map (\<lambda>i. (elem A i j - elem Y i j) * (elem X i k * w ! i))
                          [0..<n_rows A]))))"
proof -
  let ?vs = "[Mat T0, Mat M0, Mat S0]"
  let ?p = "make_packer ?vs"
  from assms obtain Theta Zr E g1 E1 g2 E2 where
    Theta: "unpack_mat ?p 0 parameters = Inr Theta"
    and Z: "arma_add (arma_add (Inr Offs) (arma_mul (Inr X) (arma_t (Inr Theta)))) Zr = Inr Z"
    and A: "arma_exp (arma_add (Inr Z) E) = Inr A"
    and p0: "pack_expr ?p 0 gs
         (arma_mul (arma_t (arma_sub (Inr A) (Inr Y))) (arma_each_col (*) (Inr X) (Inr (colvec w))))
         = Inr g1"
    and p1: "pack_expr ?p 1 g1 E1 = Inr g2"
    and p2: "pack_expr ?p 2 g2 E2 = Inr g"
    unfolding sparse_closure_def bind_eq_Inr by auto
  from A have "n_cols A = n_cols Z"
    by (auto simp: eop_def eglue_def arma_each_col_def bind_eq_Inr split: if_splits)
  with linear_predictor_cols [OF Z] have dims: "n_cols A = n_rows Theta" "n_cols X = n_cols Theta"
    by simp_all
  from pack_expr_Inr [OF p2] obtain G2 where k2: "pack ?p 2 g2 (Mat G2) = Inr g" by blast
  from pack_expr_Inr [OF p1] obtain G1 where k1: "pack ?p 1 g1 (Mat G1) = Inr g2" by blast
  have "unpack ?p 0 g = unpack ?p 0 g2"
    by (rule pack_frame [OF _ _ _ k2]) simp_all
  also have "\<dots> = unpack ?p 0 g1"
    by (rule pack_frame [OF _ _ _ k1]) simp_all
  also have "\<dots> = Inr (Mat (mk (n_cols A) (n_cols X)
       (\<lambda>j k. sum_list (map (\<lambda>i. (elem A i j - elem Y i j) * (elem X i k * w ! i))
                          [0..<n_rows A]))))"
    by (rule theta_block [OF _ _ Theta dims p0]) simp_all
  finally show ?thesis .
qed

section \<open>The variances computed after the run\<close>





lemma elem_in_set:
  assumes "mat_ok x" "i < n_rows x" "j < n_cols x"
  shows "elem x i j \<in> set (mem x)"
proof -
  have "i + j * n_rows x < n_rows x * n_cols x"
  proof -
    have "i + j * n_rows x < n_rows x + j * n_rows x" using assms(2) by simp
    also have "\<dots> = Suc j * n_rows x" by simp
    also have "\<dots> \<le> n_cols x * n_rows x" using assms(3) by (intro mult_le_mono1) simp
    finally show ?thesis by (simp add: mult.commute)
  qed
  with assms(1) show ?thesis by (simp add: elem_def mat_ok_def)
qed

lemma arma_pow_Inr:
  "arma_pow a k = Inr c \<Longrightarrow> \<exists>x. a = Inr x \<and> c = x\<lparr>mem := map (\<lambda>v. v powi k) (mem x)\<rparr>"
  by (auto simp: arma_pow_def bind_eq_Inr split: if_splits)







section \<open>The claims about the objective functions\<close>

lemma unpack_theta_1x1:
  "unpack (make_packer [Mat (one_by_one a0), Mat (one_by_one b0), Mat (one_by_one c0)]) 0
     [a, b, c] = Inr (Mat (one_by_one a))"
  "unpack (make_packer [Mat (one_by_one a0), Mat (one_by_one b0), Vec [c0]]) 0
     [a, b, c] = Inr (Mat (one_by_one a))"
  "unpack (make_packer [Mat (one_by_one a0), Mat (one_by_one b0), Mat (one_by_one c0),
       Mat (one_by_one d0)]) 0
     [a, b, c, d] = Inr (Mat (one_by_one a))"
  by (simp_all add: unpack_def make_packer_def subvec_def reshape_def one_by_one_def)

text \<open>
  C3. Every closure forms the block of \<open>Theta\<close> as \<open>(A - Y).t() * (X.each_col() % w)\<close>
  from its local \<open>A\<close>. In the sparse closure that local is \<open>exp (Z + S / 2)\<close> (line
  674), not the mean matrix \<open>exp (Z + S2 / 2)\<close>. On one-by-one data with \<open>Y = 1\<close>,
  \<open>X = 1\<close>, \<open>w = 1\<close>, \<open>Z = 0\<close> and \<open>S = 2\<close> the sparse closure returns the block
  \<open>exp 1 - 1\<close>; the product of the claim, taken with the mean matrix \<open>exp 2\<close>, is
  \<open>exp 2 - 1\<close>, and that is the block the full, spherical, diagonal and rank closures
  return on the same data.
\<close>

theorem sparse_theta_gradient_uses_S:
  "sparse_closure (make_packer [Mat (one_by_one 0), Mat (one_by_one 0), Mat (one_by_one 0)])
     (one_by_one 1) (one_by_one 1) (one_by_one 0) [1] (one_by_one 1) [0, 0, 2] [0, 0, 0]
   = Inr (one_by_one 4, one_by_one 0, one_by_one (exp 1), exp 1 - ln 4 / 2 - 4,
          [exp 1 - 1, exp 1 - 1, 3 / 2 + 2 * exp 1]) \<and>
   unpack (make_packer [Mat (one_by_one 0), Mat (one_by_one 0), Mat (one_by_one 0)]) 0
     [exp 1 - 1, exp 1 - 1, 3 / 2 + 2 * exp 1]
   = Inr (Mat (one_by_one (exp 1 - 1))) \<and>
   arma_mul
     (arma_t (arma_sub
        (arma_exp (arma_add (Inr (one_by_one 0)) (arma_scale (1 / 2) (Inr (one_by_one 4)))))
        (Inr (one_by_one 1))))
     (arma_each_col (*) (Inr (one_by_one 1)) (Inr (colvec [1])))
   = Inr (one_by_one (exp 2 - 1)) \<and>
   one_by_one (exp 1 - 1) \<noteq> one_by_one (exp 2 - 1) \<and>
   full_closure inv_sympd_1x1 log_det_1x1
     (make_packer [Mat (one_by_one 0), Mat (one_by_one 0), Mat (one_by_one 0)])
     (one_by_one 1) (one_by_one 1) (one_by_one 0) [1] 1 [0, 0, 2] [0, 0, 0]
   = Inr (one_by_one 4, one_by_one 0, one_by_one (exp 2), exp 2 - ln 4 / 2 - ln (1 / 4) / 2,
          [exp 2 - 1, exp 2 - 1, 2 * exp 2]) \<and>
   spherical_closure (make_packer [Mat (one_by_one 0), Mat (one_by_one 0), Vec [0]])
     (one_by_one 1) (one_by_one 1) (one_by_one 0) [1] 1 [0, 0, 2] [0, 0, 0]
   = Inr (one_by_one 4, one_by_one 0, one_by_one (exp 2), exp 2,
          [exp 2 - 1, exp 2 - 1, 2 * exp 2 - 1]) \<and>
   diagonal_closure (make_packer [Mat (one_by_one 0), Mat (one_by_one 0), Mat (one_by_one 0)])
     (one_by_one 1) (one_by_one 1) (one_by_one 0) [1] 1 [0, 0, 2] [0, 0, 0]
   = Inr (one_by_one 4, one_by_one 0, one_by_one (exp 2), exp 2,
          [exp 2 - 1, exp 2 - 1, 2 * exp 2]) \<and>
   rank_closure (make_packer [Mat (one_by_one 0), Mat (one_by_one 0), Mat (one_by_one 0),
       Mat (one_by_one 0)])
     (one_by_one 1) (one_by_one 1) (one_by_one 0) [1] [0, 1, 0, 2] [0, 0, 0, 0]
   = Inr (one_by_one 4, one_by_one 0, one_by_one (exp 2), exp 2 + (3 - ln 4) / 2,
          [exp 2 - 1, exp 2 * 4, exp 2 - 1, 3 / 2 + exp 2 * 2]) \<and>
   unpack (make_packer [Mat (one_by_one 0), Mat (one_by_one 0), Mat (one_by_one 0)]) 0
     [exp 2 - 1, exp 2 - 1, 2 * exp 2]
   = Inr (Mat (one_by_one (exp 2 - 1))) \<and>
   unpack (make_packer [Mat (one_by_one 0), Mat (one_by_one 0), Vec [0]]) 0
     [exp 2 - 1, exp 2 - 1, 2 * exp 2 - 1]
   = Inr (Mat (one_by_one (exp 2 - 1))) \<and>
   unpack (make_packer [Mat (one_by_one 0), Mat (one_by_one 0), Mat (one_by_one 0),
       Mat (one_by_one 0)]) 0
     [exp 2 - 1, exp 2 * 4, exp 2 - 1, 3 / 2 + exp 2 * 2]
   = Inr (Mat (one_by_one (exp 2 - 1)))"
proof -
  have sparse: "sparse_closure
       (make_packer [Mat (one_by_one 0), Mat (one_by_one 0), Mat (one_by_one 0)])
       (one_by_one 1) (one_by_one 1) (one_by_one 0) [1] (one_by_one 1) [0, 0, 2] [0, 0, 0]
     = Inr (one_by_one 4, one_by_one 0, one_by_one (exp 1), exp 1 - ln 4 / 2 - 4,
            [exp 1 - 1, exp 1 - 1, 3 / 2 + 2 * exp 1])"
    by (simp add: sparse_closure_def eval_1x1)
  have claimed: "arma_mul
       (arma_t (arma_sub
          (arma_exp (arma_add (Inr (one_by_one 0)) (arma_scale (1 / 2) (Inr (one_by_one 4)))))
          (Inr (one_by_one 1))))
       (arma_each_col (*) (Inr (one_by_one 1)) (Inr (colvec [1])))
     = Inr (one_by_one (exp 2 - 1))"
    by (simp add: eval_1x1)
  have differ: "one_by_one (exp 1 - 1) \<noteq> one_by_one (exp 2 - 1)"
    by (simp add: one_by_one_def)
  have full: "full_closure inv_sympd_1x1 log_det_1x1
       (make_packer [Mat (one_by_one 0), Mat (one_by_one 0), Mat (one_by_one 0)])
       (one_by_one 1) (one_by_one 1) (one_by_one 0) [1] 1 [0, 0, 2] [0, 0, 0]
     = Inr (one_by_one 4, one_by_one 0, one_by_one (exp 2), exp 2 - ln 4 / 2 - ln (1 / 4) / 2,
            [exp 2 - 1, exp 2 - 1, 2 * exp 2])"
    by (simp add: full_closure_def unpack3 pack3 colvec_1 ops_1x1 partial_ops_1x1)
  have spherical: "spherical_closure
       (make_packer [Mat (one_by_one 0), Mat (one_by_one 0), Vec [0]])
       (one_by_one 1) (one_by_one 1) (one_by_one 0) [1] 1 [0, 0, 2] [0, 0, 0]
     = Inr (one_by_one 4, one_by_one 0, one_by_one (exp 2), exp 2,
            [exp 2 - 1, exp 2 - 1, 2 * exp 2 - 1])"
    by (simp add: spherical_closure_def eval_1x1)
  have diagonal: "diagonal_closure
       (make_packer [Mat (one_by_one 0), Mat (one_by_one 0), Mat (one_by_one 0)])
       (one_by_one 1) (one_by_one 1) (one_by_one 0) [1] 1 [0, 0, 2] [0, 0, 0]
     = Inr (one_by_one 4, one_by_one 0, one_by_one (exp 2), exp 2,
            [exp 2 - 1, exp 2 - 1, 2 * exp 2])"
    by (simp add: diagonal_closure_def eval_1x1)
  have rank: "rank_closure
       (make_packer [Mat (one_by_one 0), Mat (one_by_one 0), Mat (one_by_one 0),
          Mat (one_by_one 0)])
       (one_by_one 1) (one_by_one 1) (one_by_one 0) [1] [0, 1, 0, 2] [0, 0, 0, 0]
     = Inr (one_by_one 4, one_by_one 0, one_by_one (exp 2), exp 2 + (3 - ln 4) / 2,
            [exp 2 - 1, exp 2 * 4, exp 2 - 1, 3 / 2 + exp 2 * 2])"
    by (simp add: rank_closure_def eval_1x1)
  from sparse claimed differ full spherical diagonal rank show ?thesis
    by (simp only: unpack_theta_1x1 simp_thms)
qed

text \<open>
  C10. For each of the eight closures: if the closure returns a value at a parameter
  vector, then no element of the \<open>S\<close> it unpacks from that vector is zero. Put the
  other way round, at a point where some element of \<open>S\<close> is zero the closure has no
  finite value and gradient: \<open>log(S2)\<close> and the reciprocal of \<open>S\<close> are taken of every
  element without a guard. The precondition is the caller's to keep.
\<close>

theorem closures_need_nonzero_S:
  "(full_closure inv_sympd log_det packer Y X Offs w w_bar parameters gs = Inr r \<and>
      unpack_mat packer 2 parameters = Inr S \<longrightarrow> (\<forall>v\<in>set (mem S). v \<noteq> 0)) \<and>
   (spherical_closure packer Y X Offs w w_bar parameters gs = Inr r \<and>
      unpack_mat packer 2 parameters = Inr S \<longrightarrow> (\<forall>v\<in>set (mem S). v \<noteq> 0)) \<and>
   (diagonal_closure packer Y X Offs w w_bar parameters gs = Inr r \<and>
      unpack_mat packer 2 parameters = Inr S \<longrightarrow> (\<forall>v\<in>set (mem S). v \<noteq> 0)) \<and>
   (rank_closure packer Y X Offs w parameters gs = Inr r \<and>
      unpack_mat packer 3 parameters = Inr S \<longrightarrow> (\<forall>v\<in>set (mem S). v \<noteq> 0)) \<and>
   (sparse_closure packer Y X Offs w Omega parameters gs = Inr r \<and>
      unpack_mat packer 2 parameters = Inr S \<longrightarrow> (\<forall>v\<in>set (mem S). v \<noteq> 0)) \<and>
   (vestep_full_closure packer Y X Offs w Theta Omega parameters gs = Inr r \<and>
      unpack_mat packer 1 parameters = Inr S \<longrightarrow> (\<forall>v\<in>set (mem S). v \<noteq> 0)) \<and>
   (vestep_diagonal_closure packer Y X Offs w Theta Omega parameters gs = Inr r \<and>
      unpack_mat packer 1 parameters = Inr S \<longrightarrow> (\<forall>v\<in>set (mem S). v \<noteq> 0)) \<and>
   (vestep_spherical_closure packer Y X Offs w Theta Omega parameters gs = Inr r \<and>
      unpack_mat packer 1 parameters = Inr S \<longrightarrow> (\<forall>v\<in>set (mem S). v \<noteq> 0))"
  using full_needs_nonzero_S [of inv_sympd log_det packer Y X Offs w w_bar parameters gs r S]
    spherical_needs_nonzero_S [of packer Y X Offs w w_bar parameters gs r S]
    diagonal_needs_nonzero_S [of packer Y X Offs w w_bar parameters gs r S]
    rank_needs_nonzero_S [of packer Y X Offs w parameters gs r S]
    sparse_needs_nonzero_S [of packer Y X Offs w Omega parameters gs r S]
    vestep_full_needs_nonzero_S [of packer Y X Offs w Theta Omega parameters gs r S]
    vestep_diagonal_needs_nonzero_S [of packer Y X Offs w Theta Omega parameters gs r S]
    vestep_spherical_needs_nonzero_S [of packer Y X Offs w Theta Omega parameters gs r S]
  by blast

theorem closures_need_nonzero_S_witness:
  "list_all (\<lambda>v. v \<noteq> 0) (mem (one_by_one 1)) \<and>
   full_closure inv_sympd_1x1 log_det_1x1
     (make_packer [Mat (one_by_one 0), Mat (one_by_one 0), Mat (one_by_one 0)])
     (one_by_one 1) (one_by_one 1) (one_by_one 0) [1] 1 [0, 0, 1] [0, 0, 0]
   = Inr (one_by_one 1, one_by_one 0, one_by_one (exp (1 / 2)), exp (1 / 2),
          [exp (1 / 2) - 1, exp (1 / 2) - 1, exp (1 / 2)]) \<and>
   spherical_closure (make_packer [Mat (one_by_one 0), Mat (one_by_one 0), Vec [0]])
     (one_by_one 1) (one_by_one 1) (one_by_one 0) [1] 1 [0, 0, 1] [0, 0, 0]
   = Inr (one_by_one 1, one_by_one 0, one_by_one (exp (1 / 2)), exp (1 / 2),
          [exp (1 / 2) - 1, exp (1 / 2) - 1, exp (1 / 2) - 2]) \<and>
   diagonal_closure (make_packer [Mat (one_by_one 0), Mat (one_by_one 0), Mat (one_by_one 0)])
     (one_by_one 1) (one_by_one 1) (one_by_one 0) [1] 1 [0, 0, 1] [0, 0, 0]
   = Inr (one_by_one 1, one_by_one 0, one_by_one (exp (1 / 2)), exp (1 / 2),
          [exp (1 / 2) - 1, exp (1 / 2) - 1, exp (1 / 2)]) \<and>
   rank_closure (make_packer [Mat (one_by_one 0), Mat (one_by_one 0), Mat (one_by_one 0),
       Mat (one_by_one 0)])
     (one_by_one 1) (one_by_one 1) (one_by_one 0) [1] [0, 1, 0, 1] [0, 0, 0, 0]
   = Inr (one_by_one 1, one_by_one 0, one_by_one (exp (1 / 2)), exp (1 / 2),
          [exp (1 / 2) - 1, exp (1 / 2), exp (1 / 2) - 1, exp (1 / 2)]) \<and>
   sparse_closure (make_packer [Mat (one_by_one 0), Mat (one_by_one 0), Mat (one_by_one 0)])
     (one_by_one 1) (one_by_one 1) (one_by_one 0) [1] (one_by_one 1) [0, 0, 1] [0, 0, 0]
   = Inr (one_by_one 1, one_by_one 0, one_by_one (exp (1 / 2)), exp (1 / 2) - 1,
          [exp (1 / 2) - 1, exp (1 / 2) - 1, exp (1 / 2)]) \<and>
   vestep_full_closure (make_packer [Mat (one_by_one 0), Mat (one_by_one 0)])
     (one_by_one 1) (one_by_one 1) (one_by_one 0) [1] (one_by_one 0) (one_by_one 1) [0, 1] [0, 0]
   = Inr (one_by_one 1, one_by_one 0, one_by_one (exp (1 / 2)), exp (1 / 2) + 1 / 2,
          [exp (1 / 2) - 1, exp (1 / 2)]) \<and>
   vestep_diagonal_closure (make_packer [Mat (one_by_one 0), Mat (one_by_one 0)])
     (one_by_one 1) (one_by_one 1) (one_by_one 0) [1] (one_by_one 0) (one_by_one 1) [0, 1] [0, 0]
   = Inr (one_by_one 1, one_by_one 0, one_by_one (exp (1 / 2)), exp (1 / 2) + 1 / 2,
          [exp (1 / 2) - 1, exp (1 / 2)]) \<and>
   vestep_spherical_closure (make_packer [Mat (one_by_one 0), Vec [0]])
     (one_by_one 1) (one_by_one 1) (one_by_one 0) [1] (one_by_one 0) (one_by_one 1) [0, 1] [0, 0]
   = Inr (one_by_one 1, one_by_one 0, one_by_one (exp (1 / 2)), exp (1 / 2) + 1 / 2,
          [exp (1 / 2) - 1, exp (1 / 2) - 2]) \<and>
   full_closure inv_sympd_1x1 log_det_1x1
     (make_packer [Mat (one_by_one 0), Mat (one_by_one 0), Mat (one_by_one 0)])
     (one_by_one 1) (one_by_one 1) (one_by_one 0) [1] 1 [0, 1, 0] [0, 0, 0]
   = Inl Non_finite"
proof -
  have u3: "unpack_mat (make_packer [Mat (one_by_one 0), Mat (one_by_one 0), Mat (one_by_one 0)]) 2
     [0, 0, 1] = Inr (one_by_one 1)"
    by (simp add: unpack3)
  have uv: "unpack_mat (make_packer [Mat (one_by_one 0), Mat (one_by_one 0), Vec [0]]) 2
     [0, 0, 1] = Inr (one_by_one 1)"
    by (simp add: unpack_mmv)
  have u4: "unpack_mat (make_packer [Mat (one_by_one 0), Mat (one_by_one 0), Mat (one_by_one 0),
       Mat (one_by_one 0)]) 3 [0, 1, 0, 1] = Inr (one_by_one 1)"
    by (simp add: unpack4)
  have u2: "unpack_mat (make_packer [Mat (one_by_one 0), Mat (one_by_one 0)]) 1 [0, 1]
     = Inr (one_by_one 1)"
    by (simp add: unpack2)
  have u2v: "unpack_mat (make_packer [Mat (one_by_one 0), Vec [0]]) 1 [0, 1] = Inr (one_by_one 1)"
    by (simp add: unpack2)
  have a0: "\<forall>v\<in>set (mem (one_by_one 1)). v \<noteq> 0"
    using full_example u3
      closures_need_nonzero_S [where inv_sympd = inv_sympd_1x1 and log_det = log_det_1x1 and w_bar = 1 and packer = "make_packer [Mat (one_by_one 0), Mat (one_by_one 0), Mat (one_by_one 0)]"
        and Y = "one_by_one 1" and X = "one_by_one 1" and Offs = "one_by_one 0" and w = "[1]"
        and parameters = "[0, 0, 1]" and gs = "[0, 0, 0]" and S = "one_by_one 1"
        and r = "(one_by_one 1, one_by_one 0, one_by_one (exp (1 / 2)), exp (1 / 2),
          [exp (1 / 2) - 1, exp (1 / 2) - 1, exp (1 / 2)])"]
    by blast
  have a1: "\<forall>v\<in>set (mem (one_by_one 1)). v \<noteq> 0"
    using spherical_example uv
      closures_need_nonzero_S [where w_bar = 1 and packer = "make_packer [Mat (one_by_one 0), Mat (one_by_one 0), Vec [0]]"
        and Y = "one_by_one 1" and X = "one_by_one 1" and Offs = "one_by_one 0" and w = "[1]"
        and parameters = "[0, 0, 1]" and gs = "[0, 0, 0]" and S = "one_by_one 1"
        and r = "(one_by_one 1, one_by_one 0, one_by_one (exp (1 / 2)), exp (1 / 2),
          [exp (1 / 2) - 1, exp (1 / 2) - 1, exp (1 / 2) - 2])"]
    by blast
  have a2: "\<forall>v\<in>set (mem (one_by_one 1)). v \<noteq> 0"
    using diagonal_example u3
      closures_need_nonzero_S [where w_bar = 1 and packer = "make_packer [Mat (one_by_one 0), Mat (one_by_one 0), Mat (one_by_one 0)]"
        and Y = "one_by_one 1" and X = "one_by_one 1" and Offs = "one_by_one 0" and w = "[1]"
        and parameters = "[0, 0, 1]" and gs = "[0, 0, 0]" and S = "one_by_one 1"
        and r = "(one_by_one 1, one_by_one 0, one_by_one (exp (1 / 2)), exp (1 / 2),
          [exp (1 / 2) - 1, exp (1 / 2) - 1, exp (1 / 2)])"]
    by blast
  have a3: "\<forall>v\<in>set (mem (one_by_one 1)). v \<noteq> 0"
    using rank_example u4
      closures_need_nonzero_S [where packer = "make_packer [Mat (one_by_one 0), Mat (one_by_one 0), Mat (one_by_one 0),
       Mat (one_by_one 0)]"
        and Y = "one_by_one 1" and X = "one_by_one 1" and Offs = "one_by_one 0" and w = "[1]"
        and parameters = "[0, 1, 0, 1]" and gs = "[0, 0, 0, 0]" and S = "one_by_one 1"
        and r = "(one_by_one 1, one_by_one 0, one_by_one (exp (1 / 2)), exp (1 / 2),
          [exp (1 / 2) - 1, exp (1 / 2), exp (1 / 2) - 1, exp (1 / 2)])"]
    by blast
  have a4: "\<forall>v\<in>set (mem (one_by_one 1)). v \<noteq> 0"
    using sparse_example u3
      closures_need_nonzero_S [where Omega = "one_by_one 1" and packer = "make_packer [Mat (one_by_one 0), Mat (one_by_one 0), Mat (one_by_one 0)]"
        and Y = "one_by_one 1" and X = "one_by_one 1" and Offs = "one_by_one 0" and w = "[1]"
        and parameters = "[0, 0, 1]" and gs = "[0, 0, 0]" and S = "one_by_one 1"
        and r = "(one_by_one 1, one_by_one 0, one_by_one (exp (1 / 2)), exp (1 / 2) - 1,
          [exp (1 / 2) - 1, exp (1 / 2) - 1, exp (1 / 2)])"]
    by blast
  have a5: "\<forall>v\<in>set (mem (one_by_one 1)). v \<noteq> 0"
    using vestep_full_example u2
      closures_need_nonzero_S [where Theta = "one_by_one 0" and Omega = "one_by_one 1" and packer = "make_packer [Mat (one_by_one 0), Mat (one_by_one 0)]"
        and Y = "one_by_one 1" and X = "one_by_one 1" and Offs = "one_by_one 0" and w = "[1]"
        and parameters = "[0, 1]" and gs = "[0, 0]" and S = "one_by_one 1"
        and r = "(one_by_one 1, one_by_one 0, one_by_one (exp (1 / 2)), exp (1 / 2) + 1 / 2,
          [exp (1 / 2) - 1, exp (1 / 2)])"]
    by blast
  have a6: "\<forall>v\<in>set (mem (one_by_one 1)). v \<noteq> 0"
    using vestep_diagonal_example u2
      closures_need_nonzero_S [where Theta = "one_by_one 0" and Omega = "one_by_one 1" and packer = "make_packer [Mat (one_by_one 0), Mat (one_by_one 0)]"
        and Y = "one_by_one 1" and X = "one_by_one 1" and Offs = "one_by_one 0" and w = "[1]"
        and parameters = "[0, 1]" and gs = "[0, 0]" and S = "one_by_one 1"
        and r = "(one_by_one 1, one_by_one 0, one_by_one (exp (1 / 2)), exp (1 / 2) + 1 / 2,
          [exp (1 / 2) - 1, exp (1 / 2)])"]
    by blast
  have a7: "\<forall>v\<in>set (mem (one_by_one 1)). v \<noteq> 0"
    using vestep_spherical_example u2v
      closures_need_nonzero_S [where Theta = "one_by_one 0" and Omega = "one_by_one 1" and packer = "make_packer [Mat (one_by_one 0), Vec [0]]"
        and Y = "one_by_one 1" and X = "one_by_one 1" and Offs = "one_by_one 0" and w = "[1]"
        and parameters = "[0, 1]" and gs = "[0, 0]" and S = "one_by_one 1"
        and r = "(one_by_one 1, one_by_one 0, one_by_one (exp (1 / 2)), exp (1 / 2) + 1 / 2,
          [exp (1 / 2) - 1, exp (1 / 2) - 2])"]
    by blast
  from a0 a1 a2 a3 a4 a5 a6 a7 have "list_all (\<lambda>v. v \<noteq> 0) (mem (one_by_one 1))"
    by (simp add: list_all_iff)
  with full_example spherical_example diagonal_example rank_example sparse_example
    vestep_full_example vestep_diagonal_example vestep_spherical_example full_nonfinite_example
  show ?thesis by (intro conjI)
qed

text \<open>
  C1. The sparse closure and the diagonal closure of the E step do not form the mean
  matrix from the squared scale. At \<open>Z = 0\<close> and \<open>S = 2\<close> (so \<open>S2 = 4\<close>) both return
  \<open>A = exp 1\<close>, which is \<open>exp (Z + S / 2)\<close>, where \<open>exp (Z + S2 / 2)\<close> is \<open>exp 2\<close>.
\<close>

theorem sparse_mean_uses_S:
  "(\<exists>obj g. sparse_closure
       (make_packer [Mat (one_by_one 0), Mat (one_by_one 0), Mat (one_by_one 0)])
       (one_by_one 1) (one_by_one 1) (one_by_one 0) [1] (one_by_one 1) [0, 0, 2] [0, 0, 0]
     = Inr (one_by_one 4, one_by_one 0, one_by_one (exp 1), obj, g)) \<and>
   (\<exists>obj g. vestep_diagonal_closure (make_packer [Mat (one_by_one 0), Mat (one_by_one 0)])
       (one_by_one 1) (one_by_one 1) (one_by_one 0) [1] (one_by_one 0) (one_by_one 1) [0, 2] [0, 0]
     = Inr (one_by_one 4, one_by_one 0, one_by_one (exp 1), obj, g)) \<and>
   arma_exp (arma_add (Inr (one_by_one 0)) (arma_scale (1 / 2) (Inr (one_by_one 4))))
     = Inr (one_by_one (exp 2)) \<and>
   one_by_one (exp 1) \<noteq> one_by_one (exp 2)"
proof -
  have "(\<exists>obj g. vestep_diagonal_closure (make_packer [Mat (one_by_one 0), Mat (one_by_one 0)])
       (one_by_one 1) (one_by_one 1) (one_by_one 0) [1] (one_by_one 0) (one_by_one 1) [0, 2] [0, 0]
     = Inr (one_by_one 4, one_by_one 0, one_by_one (exp 1), obj, g))"
    by (simp add: vestep_diagonal_closure_def eval_1x1)
  moreover have "arma_exp (arma_add (Inr (one_by_one 0)) (arma_scale (1 / 2) (Inr (one_by_one 4))))
     = Inr (one_by_one (exp 2))"
    by (simp add: eval_1x1)
  moreover have "one_by_one (exp 1) \<noteq> one_by_one (exp 2)"
    by (simp add: one_by_one_def)
  ultimately show ?thesis using sparse_mean_example by blast
qed




end
